theory Spec2Isabelle
  imports Main "HOL-Library.AList"
begin

section \<open>Python strings\<close>

text \<open>
  A Python \<open>str\<close> is modelled as a \<open>string\<close>: a character of the model is a code point
  below 256 (ASCII and the Latin-1 supplement), and a text with a code point beyond that
  is outside the model. The string methods the source calls are written out below, with
  Python's Unicode tables cut down to these code points.
\<close>

text \<open>
  The capital letters: \<open>A\<close> to \<open>Z\<close>, and U+00C0 to U+00DE without the multiplication sign
  U+00D7; \<open>str.lower\<close> moves each of them up by 32.
\<close>

definition upper_letters :: string where
  "upper_letters =
     ''ABCDEFGHIJKLMNOPQRSTUVWXYZ'' @
     [CHR 0xC0, CHR 0xC1, CHR 0xC2, CHR 0xC3, CHR 0xC4, CHR 0xC5, CHR 0xC6, CHR 0xC7,
      CHR 0xC8, CHR 0xC9, CHR 0xCA, CHR 0xCB, CHR 0xCC, CHR 0xCD, CHR 0xCE, CHR 0xCF,
      CHR 0xD0, CHR 0xD1, CHR 0xD2, CHR 0xD3, CHR 0xD4, CHR 0xD5, CHR 0xD6,
      CHR 0xD8, CHR 0xD9, CHR 0xDA, CHR 0xDB, CHR 0xDC, CHR 0xDD, CHR 0xDE]"

definition lower_letters :: string where
  "lower_letters =
     ''abcdefghijklmnopqrstuvwxyz'' @
     [CHR 0xE0, CHR 0xE1, CHR 0xE2, CHR 0xE3, CHR 0xE4, CHR 0xE5, CHR 0xE6, CHR 0xE7,
      CHR 0xE8, CHR 0xE9, CHR 0xEA, CHR 0xEB, CHR 0xEC, CHR 0xED, CHR 0xEE, CHR 0xEF,
      CHR 0xF0, CHR 0xF1, CHR 0xF2, CHR 0xF3, CHR 0xF4, CHR 0xF5, CHR 0xF6,
      CHR 0xF8, CHR 0xF9, CHR 0xFA, CHR 0xFB, CHR 0xFC, CHR 0xFD, CHR 0xFE]"

definition lower_char :: "char \<Rightarrow> char" where
  "lower_char c =
     (case map_of (zip upper_letters lower_letters) c of
        Some d \<Rightarrow> d
      | None \<Rightarrow> c)"

definition py_lower :: "string \<Rightarrow> string" where
  "py_lower s = map lower_char s"

definition py_startswith :: "string \<Rightarrow> string \<Rightarrow> bool" where
  "py_startswith p s = (take (length p) s = p)"

text \<open>\<open>sub in s\<close>: \<open>sub\<close> occurs in \<open>s\<close> as a contiguous piece.\<close>

fun py_in :: "string \<Rightarrow> string \<Rightarrow> bool" where
  "py_in sub [] = (sub = [])"
| "py_in sub (c # cs) = (py_startswith sub (c # cs) \<or> py_in sub cs)"

text \<open>
  The decimal digits, which \<open>\d\<close> of a regular expression matches and \<open>int\<close> reads.
\<close>

definition is_digit :: "char \<Rightarrow> bool" where
  "is_digit c = (c \<in> set ''0123456789'')"

text \<open>
  \<open>str.isdigit\<close> also accepts the superscript digits U+00B2, U+00B3 and U+00B9.
\<close>

definition isdigit_char :: "char \<Rightarrow> bool" where
  "isdigit_char c = (is_digit c \<or> c \<in> set [CHR 0xB2, CHR 0xB3, CHR 0xB9])"

definition py_isdigit :: "string \<Rightarrow> bool" where
  "py_isdigit s = (s \<noteq> [] \<and> list_all isdigit_char s)"

text \<open>\<open>s.split(sep)\<close> for a one-character separator: empty pieces are kept.\<close>

fun py_split :: "char \<Rightarrow> string \<Rightarrow> string list" where
  "py_split sep [] = [[]]"
| "py_split sep (c # cs) =
     (if c = sep then [] # py_split sep cs
      else (case py_split sep cs of
              w # ws \<Rightarrow> (c # w) # ws
            | [] \<Rightarrow> [[c]]))"

text \<open>\<open>s.rfind(c)\<close>: the last index of \<open>c\<close>, \<open>None\<close> for Python's \<open>-1\<close>.\<close>

fun py_rfind :: "char \<Rightarrow> string \<Rightarrow> nat option" where
  "py_rfind c [] = None"
| "py_rfind c (x # xs) =
     (case py_rfind c xs of
        Some i \<Rightarrow> Some (Suc i)
      | None \<Rightarrow> if x = c then Some 0 else None)"

text \<open>
  \<open>Path.suffix\<close> of pathlib, on the file's name: the piece from the last dot on, unless
  that dot is the first or the last character of the name.
\<close>

definition path_suffix :: "string \<Rightarrow> string" where
  "path_suffix name =
     (case py_rfind (CHR ''.'') name of
        None \<Rightarrow> []
      | Some i \<Rightarrow> if 0 < i \<and> i + 1 < length name then drop i name else [])"

section \<open>Data model\<close>

text \<open>
  The device identities and media kinds are the string constants of the source; a Python
  \<open>None\<close> is \<open>None\<close> of an option type.
\<close>

datatype device = dji_drone | sony_camera | dji_rc_pro

datatype media = image_media | video_media

text \<open>
  The metadata bag is the dictionary returned by \<open>MetadataExtractor.extract_metadata\<close>:
  a tag is bound to a scalar (a JSON string or an integer) and a group name to the
  dictionary of the group's tags. Dictionaries are association lists in insertion order
  with distinct keys.
\<close>

datatype tagval = TStr string | TNum int

datatype mval = Scalar tagval | Group "(string \<times> tagval) list"

type_synonym bag = "(string \<times> mval) list"

definition md_get :: "bag \<Rightarrow> string \<Rightarrow> mval option" where
  "md_get md k = map_of md k"

text \<open>Python truthiness of the result of \<open>metadata.get(field)\<close>.\<close>

fun truthy :: "mval option \<Rightarrow> bool" where
  "truthy None = False"
| "truthy (Some (Scalar (TStr s))) = (s \<noteq> [])"
| "truthy (Some (Scalar (TNum n))) = (n \<noteq> 0)"
| "truthy (Some (Group g)) = (g \<noteq> [])"

section \<open>Configuration (config.py)\<close>

text \<open>
  \<open>DEVICE_PATTERNS\<close>, in the order of the dictionary literal: per device the filename
  patterns and the metadata patterns (field, accepted values).
\<close>

definition DEVICE_PATTERNS ::
    "(device \<times> string list \<times> (string \<times> string list) list) list" where
  "DEVICE_PATTERNS =
     [(dji_drone, [''DJI_'', ''Mavic3Pro''],
         [(''make'', [''Hasselblad'', ''DJI'']),
          (''model'', [''L2D-20c'', ''Mavic3Pro'']),
          (''product_name'', [''DJIMavic3Pro'']),
          (''manufacturer'', [''DJI''])]),
      (sony_camera, [''DSC''],
         [(''make'', [''SONY'']),
          (''model'', [''ILCE-7M4'']),
          (''devicemanufacturer'', [''Sony'']),
          (''devicemodelname'', [''ILCE-7M4''])]),
      (dji_rc_pro, [''screen-'', ''RCPro''],
         [(''make'', [''DJI'']),
          (''model'', [''RCPro''])])]"

section \<open>Classification (FileProcessor.\_identify\_device\_type, \_identify\_media\_type)\<close>

text \<open>
  One (field, values) entry of a device's metadata patterns: the field is looked up as
  written and, when that value is falsy, in lower case; only a string value can match.
\<close>

definition metadata_pattern_hit :: "bag \<Rightarrow> string \<times> string list \<Rightarrow> bool" where
  "metadata_pattern_hit md fv =
     (let metadata_value =
            (if truthy (md_get md (fst fv)) then md_get md (fst fv)
             else md_get md (py_lower (fst fv)))
      in truthy metadata_value \<and>
         (case metadata_value of
            Some (Scalar (TStr s)) \<Rightarrow> list_ex (\<lambda>v. py_in (py_lower v) (py_lower s)) (snd fv)
          | _ \<Rightarrow> False))"

definition device_matches ::
    "string \<Rightarrow> bag \<Rightarrow> device \<times> string list \<times> (string \<times> string list) list \<Rightarrow> bool" where
  "device_matches filename md entry =
     (list_ex (\<lambda>pattern. py_in pattern filename) (fst (snd entry)) \<or>
      list_ex (metadata_pattern_hit md) (snd (snd entry)))"

definition identify_device_type :: "string \<Rightarrow> bag \<Rightarrow> device option" where
  "identify_device_type filename md =
     (let file_ext = py_lower (path_suffix filename) in
      if file_ext = ''.mp4'' \<and> take 1 filename = ''C'' \<and>
         py_isdigit (drop 1 (hd (py_split (CHR ''.'') filename)))
      then Some sony_camera
      else if py_in ''DJI-Mavic3Pro'' filename then Some dji_drone
      else if py_in ''DJI-RCPro'' filename then Some dji_rc_pro
      else if py_in ''Sony-ILCE'' filename then Some sony_camera
      else (case find (device_matches filename md) DEVICE_PATTERNS of
              Some entry \<Rightarrow> Some (fst entry)
            | None \<Rightarrow>
                if file_ext = ''.arw'' then Some sony_camera
                else if file_ext \<in> set [''.dng'', ''.jpg'', ''.jpeg'', ''.mp4''] \<and>
                        (py_in ''DJI'' filename \<or> py_in ''FC43'' filename)
                  then Some dji_drone
                else if file_ext = ''.mp4'' \<and>
                        (py_in ''Sony'' filename \<or> py_in ''ILCE'' filename)
                  then Some sony_camera
                else None))"

definition identify_media_type :: "string \<Rightarrow> media option" where
  "identify_media_type filename =
     (let ext = py_lower (path_suffix filename) in
      if ext \<in> set [''.jpg'', ''.jpeg'', ''.dng'', ''.arw''] then Some image_media
      else if ext = ''.mp4'' then Some video_media
      else None)"

section \<open>Filename components\<close>

text \<open>\<open>FileProcessor._extract_sequence_number\<close>; the argument is \<open>self.device_type\<close>.\<close>

definition extract_sequence_number :: "device option \<Rightarrow> string \<Rightarrow> string option" where
  "extract_sequence_number device_type filename =
     (if device_type = Some dji_drone then
        (let parts = py_split (CHR ''_'') filename in
         if 3 \<le> length parts then Some (parts ! 2) else None)
      else None)"

section \<open>Timestamps\<close>

text \<open>
  A \<open>datetime\<close> object: the wall-clock fields and the attached zone, \<open>None\<close> for a naive
  instant. The zones that occur are \<open>dateutil.tz.tzlocal()\<close> and a fixed offset from UTC in
  seconds (\<open>datetime.timezone\<close>, and the \<open>tzutc\<close> and \<open>tzoffset\<close> zones of the parser).
\<close>

datatype tzinfo = tzlocal | tzoffset int

record datetime =
  year :: nat
  month :: nat
  day :: nat
  hour :: nat
  minute :: nat
  second :: nat
  microsecond :: nat
  tzinfo :: "tzinfo option"

definition is_leap :: "nat \<Rightarrow> bool" where
  "is_leap y = (if y mod 400 = 0 then True else if y mod 100 = 0 then False else y mod 4 = 0)"

definition days_in_month :: "nat \<Rightarrow> nat \<Rightarrow> nat" where
  "days_in_month y m =
     (if m = 2 then (if is_leap y then 29 else 28)
      else if m \<in> set [4, 6, 9, 11] then 30 else 31)"

text \<open>
  The constructor \<open>datetime(year, month, day, hour, minute, second, tzinfo=tz)\<close>;
  \<open>None\<close> is its \<open>ValueError\<close> for a field out of range.
\<close>

definition mk_datetime ::
    "int \<Rightarrow> int \<Rightarrow> int \<Rightarrow> int \<Rightarrow> int \<Rightarrow> int \<Rightarrow> tzinfo option \<Rightarrow> datetime option" where
  "mk_datetime y mo d h mi s tz =
     (if 1 \<le> y \<and> y \<le> 9999 \<and> 1 \<le> mo \<and> mo \<le> 12 \<and>
         1 \<le> d \<and> d \<le> int (days_in_month (nat y) (nat mo)) \<and>
         0 \<le> h \<and> h < 24 \<and> 0 \<le> mi \<and> mi < 60 \<and> 0 \<le> s \<and> s < 60
      then Some \<lparr>year = nat y, month = nat mo, day = nat d, hour = nat h, minute = nat mi,
                 second = nat s, microsecond = 0, tzinfo = tz\<rparr>
      else None)"

subsection \<open>The filename patterns (timestamp\_utils.extract\_timestamp\_from\_filename)\<close>

text \<open>
  The three regular expressions are sequences of a literal, a group of exactly \<open>n\<close> digits
  \<open>(\d{n})\<close> and an optional character of a class \<open>[...]?\<close>. \<open>match_items\<close> matches such a
  sequence at the start of a string and returns the groups; the optional character is
  tried first and given up when the rest fails, as the backtracking matcher does.
  \<open>re_search\<close> is \<open>re.search\<close>: the match at the leftmost position that has one.
\<close>

datatype item = Lit string | Digits nat | Opt string

fun match_items :: "item list \<Rightarrow> string \<Rightarrow> string list option" where
  "match_items [] s = Some []"
| "match_items (Lit l # items) s =
     (if py_startswith l s then match_items items (drop (length l) s) else None)"
| "match_items (Digits n # items) s =
     (if n \<le> length s \<and> list_all is_digit (take n s)
      then map_option ((#) (take n s)) (match_items items (drop n s))
      else None)"
| "match_items (Opt cs # items) s =
     (case s of
        [] \<Rightarrow> match_items items []
      | c # s' \<Rightarrow>
          if c \<in> set cs
          then (case match_items items s' of
                  Some groups \<Rightarrow> Some groups
                | None \<Rightarrow> match_items items s)
          else match_items items s)"

fun re_search :: "item list \<Rightarrow> string \<Rightarrow> string list option" where
  "re_search p [] = match_items p []"
| "re_search p (c # cs) =
     (case match_items p (c # cs) of
        Some groups \<Rightarrow> Some groups
      | None \<Rightarrow> re_search p cs)"

definition dji_pattern :: "item list" where
  "dji_pattern =
     [Lit ''DJI_'', Digits 4, Digits 2, Digits 2, Digits 2, Digits 2, Digits 2, Lit ''_'']"

definition screen_pattern :: "item list" where
  "screen_pattern =
     [Lit ''screen-'', Digits 4, Digits 2, Digits 2, Lit ''-'', Digits 2, Digits 2, Digits 2]"

definition generic_pattern :: "item list" where
  "generic_pattern =
     [Digits 4, Opt ''-_'', Digits 2, Opt ''-_'', Digits 2, Opt ''-_T'',
      Digits 2, Opt ''-_:'', Digits 2, Opt ''-_:'', Digits 2]"

definition digit_val :: "char \<Rightarrow> nat" where
  "digit_val c =
     (case map_of (zip ''0123456789'' [0, 1, 2, 3, 4, 5, 6, 7, 8, 9]) c of
        Some d \<Rightarrow> d
      | None \<Rightarrow> 0)"

text \<open>\<open>int(group)\<close> for a group of decimal digits.\<close>

definition int_of_digits :: "string \<Rightarrow> int" where
  "int_of_digits s = int (foldl (\<lambda>acc c. 10 * acc + digit_val c) 0 s)"

text \<open>
  \<open>year, month, day, hour, minute, second = map(int, match.groups())\<close> and the
  constructor call with \<open>tzinfo=tzlocal()\<close>; a \<open>ValueError\<close> is passed over.
\<close>

definition datetime_of_groups :: "string list \<Rightarrow> datetime option" where
  "datetime_of_groups groups =
     (case map int_of_digits groups of
        [y, mo, d, h, mi, s] \<Rightarrow> mk_datetime y mo d h mi s (Some tzlocal)
      | _ \<Rightarrow> None)"

definition try_pattern :: "item list \<Rightarrow> string \<Rightarrow> datetime option" where
  "try_pattern p filename =
     (case re_search p filename of
        Some groups \<Rightarrow> datetime_of_groups groups
      | None \<Rightarrow> None)"

definition extract_timestamp_from_filename :: "string \<Rightarrow> datetime option" where
  "extract_timestamp_from_filename filename =
     (case try_pattern dji_pattern filename of
        Some dt \<Rightarrow> Some dt
      | None \<Rightarrow>
          (case try_pattern screen_pattern filename of
             Some dt \<Rightarrow> Some dt
           | None \<Rightarrow> try_pattern generic_pattern filename))"

subsection \<open>The libraries around the code\<close>

text \<open>
  The date parser \<open>dateutil.parser.parse\<close>, Python's number conversions and the system's
  zone database are not code of this repository. They are parameters of the model, and
  every theorem below holds for each behaviour they may have. A call of the parser returns
  a \<open>datetime\<close> or raises; \<open>ParserError\<close> is a \<open>ValueError\<close>, \<open>ParserOverflow\<close> is the
  parser's \<open>OverflowError\<close>.
\<close>

datatype error = TypeError | OverflowError | OSError

datatype parsed = Parsed datetime | ParserError | ParserOverflow

record env =
  parse :: "string \<Rightarrow> parsed"
  parse_fuzzy :: "string \<Rightarrow> parsed"
  py_int :: "string \<Rightarrow> int option"
  py_int_of_float :: "string \<Rightarrow> int option"
  localtime :: "datetime \<Rightarrow> datetime option"
  local_utcoffset :: "datetime \<Rightarrow> int"
  extract_resolution :: "device option \<Rightarrow> string \<Rightarrow> bag \<Rightarrow> string option"
  extract_fps :: "device option \<Rightarrow> string \<Rightarrow> bag \<Rightarrow> string option"
  extract_video_duration :: "bag \<Rightarrow> string option"
  extract_shutter_count :: "bag \<Rightarrow> string option"
  short_year :: "nat \<Rightarrow> string"
  dict_repr :: "(string \<times> tagval) list \<Rightarrow> string"
  extract_metadata :: "string \<Rightarrow> bag"
  can_mkdir :: "string \<Rightarrow> bool"
  can_copy :: "string \<Rightarrow> string \<Rightarrow> bool"
  can_remove :: "string \<Rightarrow> bool"

text \<open>
  \<open>parse e s\<close> is \<open>dateutil.parser.parse(s)\<close> and \<open>parse_fuzzy e s\<close> the call with
  \<open>fuzzy=True\<close>. \<open>py_int e s\<close> is \<open>int(s)\<close> and \<open>py_int_of_float e s\<close> is \<open>int(float(s))\<close>,
  \<open>None\<close> when they raise. \<open>localtime e dt\<close> is the wall-clock time of an aware \<open>dt\<close> in the
  system's zone, \<open>None\<close> for the \<open>OverflowError\<close> of a date out of range, and
  \<open>local_utcoffset e dt\<close> the offset of the system's zone at \<open>dt\<close> in seconds. The four
  \<open>extract\<close> fields are \<open>_extract_resolution\<close>, \<open>_extract_fps\<close>, \<open>_extract_video_duration\<close>
  and \<open>_extract_shutter_count\<close> of \<open>FileProcessor\<close>, whose number parsing and
  floating-point comparisons are not modelled; each returns \<open>None\<close> when the bag has none
  of its fields.
  \<open>short_year e y\<close> is what \<open>strftime('%Y')\<close> prints for a year \<open>y\<close> below 1000: the C
  library decides whether zeros are put in front (\<open>999\<close> or \<open>0999\<close>).
  \<open>dict_repr e d\<close> is \<open>str(d)\<close> of a dictionary. \<open>extract_metadata e p\<close> is the bag that
  \<open>MetadataExtractor.extract_metadata\<close> returns for the file at path \<open>p\<close> (empty when the
  extraction fails). \<open>can_mkdir\<close>, \<open>can_copy\<close> and \<open>can_remove\<close> say whether the operating
  system lets \<open>Path.mkdir\<close>, \<open>shutil.copy2\<close> and \<open>os.remove\<close> succeed.
\<close>

definition astimezone :: "env \<Rightarrow> datetime \<Rightarrow> tzinfo \<Rightarrow> error + datetime" where
  "astimezone e dt tz =
     (case localtime e dt of
        None \<Rightarrow> Inl OverflowError
      | Some wall \<Rightarrow> Inr (wall\<lparr>tzinfo := Some tz\<rparr>))"

definition digit_char :: "nat \<Rightarrow> char" where
  "digit_char n = ''0123456789'' ! n"

fun digits_of_nat :: "nat \<Rightarrow> string" where
  "digits_of_nat n =
     (if n < 10 then [digit_char n] else digits_of_nat (n div 10) @ [digit_char (n mod 10)])"

declare digits_of_nat.simps [simp del]

text \<open>\<open>str(v)\<close> of a tag's value, as an f-string inserts it.\<close>

definition py_str :: "tagval \<Rightarrow> string" where
  "py_str v =
     (case v of
        TStr s \<Rightarrow> s
      | TNum n \<Rightarrow> if n < 0 then ''-'' @ digits_of_nat (nat (- n)) else digits_of_nat (nat n))"

subsection \<open>Groups of the bag\<close>

text \<open>
  Where the source indexes into a group (\<open>metadata['QuickTime'][...]\<close>), the model reads
  the group's dictionary; a group name that the bag binds to a scalar counts as absent
  (the extractor binds group names to dictionaries).
\<close>

definition group :: "bag \<Rightarrow> string \<Rightarrow> (string \<times> tagval) list option" where
  "group md g = (case md_get md g of Some (Group d) \<Rightarrow> Some d | _ \<Rightarrow> None)"

definition grp_get :: "bag \<Rightarrow> string \<Rightarrow> string \<Rightarrow> tagval option" where
  "grp_get md g k = (case group md g of Some d \<Rightarrow> map_of d k | None \<Rightarrow> None)"

subsection \<open>Flattening (timestamp\_utils.\_flatten\_metadata)\<close>

definition flat_key :: "string \<Rightarrow> string \<Rightarrow> string" where
  "flat_key prefix key = (if prefix = [] then key else prefix @ '':'' @ key)"

text \<open>The recursive call on a group's dictionary: every value is a scalar.\<close>

definition flatten_group ::
    "(string \<times> tagval) list \<Rightarrow> (string \<times> tagval) list \<Rightarrow> string \<Rightarrow> (string \<times> tagval) list" where
  "flatten_group g result prefix =
     foldl (\<lambda>res kv. AList.update (flat_key prefix (fst kv)) (snd kv) res) result g"

text \<open>
  The top-level call (empty prefix): a group is flattened by the recursive call and then
  its tags are stored once more under \<open>group:tag\<close>; a scalar is stored under its key.
\<close>

definition flatten_metadata :: "bag \<Rightarrow> (string \<times> tagval) list \<Rightarrow> (string \<times> tagval) list" where
  "flatten_metadata md result =
     foldl (\<lambda>res kv.
              case snd kv of
                Group g \<Rightarrow>
                  foldl (\<lambda>r kv2. AList.update (flat_key [] (fst kv) @ '':'' @ fst kv2) (snd kv2) r)
                    (flatten_group g res (flat_key [] (fst kv))) g
              | Scalar v \<Rightarrow> AList.update (flat_key [] (fst kv)) v res)
       result md"

subsection \<open>Generic metadata resolution (timestamp\_utils.extract\_timestamp\_from\_metadata)\<close>

definition timestamp_fields :: "string list" where
  "timestamp_fields =
     [''ExifIFD:DateTimeOriginal'', ''IFD0:ModifyDate'', ''System:FileModifyDate'',
      ''QuickTime:CreateDate'', ''Track1:TrackCreateDate'',
      ''SubSecDateTimeOriginal'', ''SubSecCreateDate'', ''SubSecModifyDate'',
      ''DateTimeOriginal'', ''CreateDate'', ''ModifyDate'',
      ''EXIF:DateTimeOriginal'', ''EXIF:CreateDate'', ''EXIF:ModifyDate'',
      ''Composite:SubSecDateTimeOriginal'', ''Composite:SubSecCreateDate'',
      ''Composite:SubSecModifyDate'',
      ''QuickTime:MediaCreateDate'', ''QuickTime:TrackCreateDate'', ''QuickTime:ModifyDate'',
      ''XML:CreationDate'', ''XML:LastUpdate'',
      ''FileModifyDate'', ''File:FileModifyDate'',
      ''MediaCreateDate'', ''TrackCreateDate'',
      ''CreationDateValue'', ''CreationTime'']"

definition offset_fields :: "string list" where
  "offset_fields =
     [''OffsetTimeOriginal'', ''OffsetTime'', ''TimeZoneOffset'',
      ''EXIF:OffsetTimeOriginal'', ''EXIF:OffsetTime'']"

text \<open>
  The zone chosen at the top of the function. For a name other than \<open>local\<close> the source
  calls \<open>timezone.gettz(timezone_str)\<close>, where \<open>timezone\<close> is \<open>datetime.timezone\<close>: the
  class has no attribute \<open>gettz\<close>, the bare \<open>except\<close> catches the \<open>AttributeError\<close>, and \<open>tz\<close>
  is \<open>tzlocal()\<close> on that path too.
\<close>

definition get_tz :: "string \<Rightarrow> tzinfo" where
  "get_tz timezone_str = (if timezone_str = ''local'' then tzlocal else tzlocal)"

text \<open>
  One round of the loop over the QuickTime fields. The loop assigns to \<open>timezone_str\<close>, the
  function's own parameter: \<open>None\<close>, or the group's \<open>TimeZone\<close> when that is a string. The
  state is the flat dictionary and the current value of \<open>timezone_str\<close>.
\<close>

definition quicktime_step ::
    "(string \<times> tagval) list \<Rightarrow> (string \<times> tagval) list \<times> string option \<Rightarrow> string
      \<Rightarrow> (string \<times> tagval) list \<times> string option" where
  "quicktime_step quicktime_data st qt_field =
     (case map_of quicktime_data qt_field of
        None \<Rightarrow> st
      | Some v \<Rightarrow>
          (let timezone_str =
                 (case map_of quicktime_data ''TimeZone'' of
                    Some (TStr z) \<Rightarrow> Some z
                  | _ \<Rightarrow> None);
               qt_value =
                 (case timezone_str of
                    Some z \<Rightarrow> TStr (py_str v @ z)
                  | None \<Rightarrow> v);
               flat1 = AList.update (''QuickTime:'' @ qt_field) qt_value (fst st);
               flat2 = (if map_of flat1 qt_field = None
                        then AList.update qt_field qt_value flat1 else flat1)
           in (flat2, timezone_str)))"

text \<open>
  \<open>flat_metadata.get(field, metadata.get(field))\<close> followed by the test that the value is
  a non-empty string.
\<close>

definition lookup_str :: "(string \<times> tagval) list \<Rightarrow> bag \<Rightarrow> string \<Rightarrow> string option" where
  "lookup_str flat md field =
     (case (case map_of flat field of
              Some v \<Rightarrow> Some (Scalar v)
            | None \<Rightarrow> md_get md field) of
        Some (Scalar (TStr s)) \<Rightarrow> if s = [] then None else Some s
      | _ \<Rightarrow> None)"

text \<open>
  \<open>timezone(timedelta(seconds=s))\<close>: \<open>timedelta\<close> raises \<open>OverflowError\<close> beyond 999999999
  days, \<open>timezone\<close> raises \<open>ValueError\<close> (here \<open>Inr None\<close>) unless the offset is strictly
  within 24 hours.
\<close>

definition mk_timezone :: "int \<Rightarrow> error + tzinfo option" where
  "mk_timezone s =
     (if 999999999 < \<bar>s div 86400\<bar> then Inl OverflowError
      else if - 86400 < s \<and> s < 86400 then Inr (Some (tzoffset s))
      else Inr None)"

text \<open>The body of the \<open>try\<close> that reads an offset such as \<open>+02:00\<close>.\<close>

definition parse_offset :: "env \<Rightarrow> string \<Rightarrow> error + tzinfo option" where
  "parse_offset e offset =
     (case py_int e (take 2 (drop 1 offset)) of
        None \<Rightarrow> Inr None
      | Some offset_hours \<Rightarrow>
          (case (if 4 < length offset then py_int e (drop 4 offset) else Some 0) of
             None \<Rightarrow> Inr None
           | Some offset_mins \<Rightarrow>
               (let offset_seconds = offset_hours * 3600 + offset_mins * 60 in
                if take 1 offset = ''+'' then mk_timezone offset_seconds
                else mk_timezone (- offset_seconds))))"

fun find_offset ::
    "env \<Rightarrow> (string \<times> tagval) list \<Rightarrow> bag \<Rightarrow> string list \<Rightarrow> error + tzinfo option" where
  "find_offset e flat md [] = Inr None"
| "find_offset e flat md (offset_field # rest) =
     (case lookup_str flat md offset_field of
        None \<Rightarrow> find_offset e flat md rest
      | Some offset \<Rightarrow>
          (case parse_offset e offset of
             Inl err \<Rightarrow> Inl err
           | Inr (Some z) \<Rightarrow> Inr (Some z)
           | Inr None \<Rightarrow> find_offset e flat md rest))"

text \<open>
  The loop over \<open>timestamp_fields\<close>: the first field whose string parses decides. \<open>Inl\<close> is
  an exception the loop's \<open>except (ValueError, TypeError)\<close> does not catch.
\<close>

fun scan_fields ::
    "env \<Rightarrow> (string \<times> tagval) list \<Rightarrow> bag \<Rightarrow> string option \<Rightarrow> tzinfo \<Rightarrow> string list
      \<Rightarrow> error + datetime option" where
  "scan_fields e flat md timezone_str tz [] = Inr None"
| "scan_fields e flat md timezone_str tz (field # rest) =
     (case lookup_str flat md field of
        None \<Rightarrow> scan_fields e flat md timezone_str tz rest
      | Some timestamp_str \<Rightarrow>
          (case parse_fuzzy e timestamp_str of
             ParserError \<Rightarrow> scan_fields e flat md timezone_str tz rest
           | ParserOverflow \<Rightarrow> Inl OverflowError
           | Parsed dt \<Rightarrow>
               (case tzinfo dt of
                  None \<Rightarrow>
                    (case find_offset e flat md offset_fields of
                       Inl err \<Rightarrow> Inl err
                     | Inr (Some z) \<Rightarrow> Inr (Some (dt\<lparr>tzinfo := Some z\<rparr>))
                     | Inr None \<Rightarrow> Inr (Some (dt\<lparr>tzinfo := Some tz\<rparr>)))
                | Some z \<Rightarrow>
                    if timezone_str = Some ''local''
                    then (case astimezone e dt tz of
                            Inl err \<Rightarrow> Inl err
                          | Inr dt' \<Rightarrow> Inr (Some dt'))
                    else Inr (Some dt))))"

text \<open>The last resort: \<open>metadata['File']['FileModifyDate']\<close>.\<close>

definition file_modify_date :: "env \<Rightarrow> bag \<Rightarrow> tzinfo \<Rightarrow> error + datetime option" where
  "file_modify_date e md tz =
     (case grp_get md ''File'' ''FileModifyDate'' of
        Some (TStr s) \<Rightarrow>
          (case parse_fuzzy e s of
             Parsed dt \<Rightarrow>
               Inr (Some (if tzinfo dt = None then dt\<lparr>tzinfo := Some tz\<rparr> else dt))
           | ParserError \<Rightarrow> Inr None
           | ParserOverflow \<Rightarrow> Inl OverflowError)
      | _ \<Rightarrow> Inr None)"

definition extract_timestamp_from_metadata ::
    "env \<Rightarrow> bag \<Rightarrow> string \<Rightarrow> error + datetime option" where
  "extract_timestamp_from_metadata e md timezone_str =
     (let tz = get_tz timezone_str;
          flat0 = flatten_metadata md [];
          st = (case group md ''QuickTime'' of
                  Some quicktime_data \<Rightarrow>
                    foldl (quicktime_step quicktime_data) (flat0, Some timezone_str)
                      [''CreateDate'', ''ModifyDate'', ''TrackCreateDate'', ''MediaCreateDate'']
                | None \<Rightarrow> (flat0, Some timezone_str))
      in case scan_fields e (fst st) md (snd st) tz timestamp_fields of
           Inl err \<Rightarrow> Inl err
         | Inr (Some dt) \<Rightarrow> Inr (Some dt)
         | Inr None \<Rightarrow> file_modify_date e md tz)"

subsection \<open>The Sony candidates of FileProcessor.process\<close>

definition replace_char :: "char \<Rightarrow> char \<Rightarrow> string \<Rightarrow> string" where
  "replace_char a b s = map (\<lambda>c. if c = a then b else c) s"

text \<open>\<open>s.split(sep, 1)\<close>: at most one cut, at the first separator.\<close>

definition split_once :: "char \<Rightarrow> string \<Rightarrow> string list" where
  "split_once sep s =
     (if sep \<in> set s
      then [takeWhile (\<lambda>c. c \<noteq> sep) s, drop 1 (dropWhile (\<lambda>c. c \<noteq> sep) s)]
      else [s])"

fun py_join :: "string \<Rightarrow> string list \<Rightarrow> string" where
  "py_join sep [] = []"
| "py_join sep [x] = x"
| "py_join sep (x # y # ys) = x @ sep @ py_join sep (y # ys)"

text \<open>
  The rewriting of \<open>YYYY:MM:DD HH:MM:SS\<close> used for the ARW candidates: with two colons or
  more and a space, the colons before the first space become dashes.
\<close>

definition colon_date :: "string \<Rightarrow> string" where
  "colon_date date_str =
     (if CHR '':'' \<in> set date_str \<and> 2 \<le> count_list date_str (CHR '':'')
      then (case split_once (CHR '' '') date_str of
              [date_part, time_part] \<Rightarrow>
                replace_char (CHR '':'') (CHR ''-'') date_part @ '' '' @ time_part
            | _ \<Rightarrow> date_str)
      else date_str)"

text \<open>The rewriting used for the MP4 candidates: every piece after the first space is kept.\<close>

definition colon_date_parts :: "string \<Rightarrow> string option" where
  "colon_date_parts date_str =
     (let parts = py_split (CHR '' '') date_str in
      if 2 \<le> length parts
      then Some (replace_char (CHR '':'') (CHR ''-'') (hd parts) @ '' '' @ py_join '' '' (tl parts))
      else None)"

fun tag_truthy :: "tagval option \<Rightarrow> bool" where
  "tag_truthy None = False"
| "tag_truthy (Some (TStr s)) = (s \<noteq> [])"
| "tag_truthy (Some (TNum n)) = (n \<noteq> 0)"

text \<open>\<open>f"{tz_offset if tz_offset else ''}"\<close>\<close>

definition offset_text :: "tagval option \<Rightarrow> string" where
  "offset_text tz_offset =
     (case tz_offset of
        Some v \<Rightarrow> if tag_truthy tz_offset then py_str v else []
      | None \<Rightarrow> [])"

text \<open>
  A \<open>try\<close> whose handler is \<open>except Exception\<close>: any failure of the parser, and the
  \<open>TypeError\<close> of a value that is not a string, leave \<open>sony_timestamp\<close> as it was.
\<close>

definition parse_caught :: "env \<Rightarrow> string \<Rightarrow> datetime option" where
  "parse_caught e s = (case parse e s of Parsed dt \<Rightarrow> Some dt | _ \<Rightarrow> None)"

definition arw_candidate :: "env \<Rightarrow> tagval option \<Rightarrow> datetime option" where
  "arw_candidate e v =
     (case v of
        Some (TStr s) \<Rightarrow> parse_caught e (colon_date s)
      | _ \<Rightarrow> None)"

definition arw_exif_candidate :: "env \<Rightarrow> bag \<Rightarrow> datetime option" where
  "arw_exif_candidate e md =
     (case grp_get md ''ExifIFD'' ''DateTimeOriginal'' of
        Some (TStr s) \<Rightarrow>
          parse_caught e (colon_date s @ offset_text (grp_get md ''ExifIFD'' ''OffsetTimeOriginal''))
      | _ \<Rightarrow> None)"

text \<open>
  Lines 100 to 174: \<open>Composite:SubSecDateTimeOriginal\<close>, \<open>System:FileModifyDate\<close>,
  \<open>ExifIFD:DateTimeOriginal\<close> with its offset, \<open>IFD0:ModifyDate\<close>; each is tried while
  \<open>sony_timestamp\<close> is still \<open>None\<close>.
\<close>

definition sony_arw_timestamp :: "env \<Rightarrow> bag \<Rightarrow> datetime option" where
  "sony_arw_timestamp e md =
     (case arw_candidate e (grp_get md ''Composite'' ''SubSecDateTimeOriginal'') of
        Some dt \<Rightarrow> Some dt
      | None \<Rightarrow>
     (case arw_candidate e (grp_get md ''System'' ''FileModifyDate'') of
        Some dt \<Rightarrow> Some dt
      | None \<Rightarrow>
     (case arw_exif_candidate e md of
        Some dt \<Rightarrow> Some dt
      | None \<Rightarrow> arw_candidate e (grp_get md ''IFD0'' ''ModifyDate''))))"

definition fixed_zone :: "int \<Rightarrow> tzinfo option" where
  "fixed_zone n = (if - 86400 < n \<and> n < 86400 then Some (tzoffset n) else None)"

definition utcoffset :: "env \<Rightarrow> datetime \<Rightarrow> int option" where
  "utcoffset e dt =
     (case tzinfo dt of
        None \<Rightarrow> None
      | Some tzlocal \<Rightarrow> Some (local_utcoffset e dt)
      | Some (tzoffset n) \<Rightarrow> Some n)"

text \<open>
  The manual fallback after a \<open>ValueError\<close> of the parser (lines 228 to 257); every
  exception in it is caught, and \<open>sony_timestamp\<close> is assigned only at its end.
\<close>

definition manual_timestamp :: "env \<Rightarrow> string \<Rightarrow> tagval option \<Rightarrow> datetime option" where
  "manual_timestamp e date_str tz_offset =
     (let date_parts = py_split (CHR '' '') date_str in
      if 2 \<le> length date_parts then
        (let ymd_parts = py_split (CHR ''-'') (date_parts ! 0);
             hms_parts = py_split (CHR '':'') (date_parts ! 1) in
         if 3 \<le> length ymd_parts \<and> 3 \<le> length hms_parts then
           (case (py_int e (ymd_parts ! 0), py_int e (ymd_parts ! 1), py_int e (ymd_parts ! 2),
                  py_int e (hms_parts ! 0), py_int e (hms_parts ! 1),
                  py_int_of_float e (hms_parts ! 2)) of
              (Some y, Some mo, Some d, Some h, Some mi, Some s) \<Rightarrow>
                (case mk_datetime y mo d h mi s None of
                   None \<Rightarrow> None
                 | Some dt \<Rightarrow>
                     if tag_truthy tz_offset then
                       (case parse_caught e (''2000-01-01 12:00:00'' @ offset_text tz_offset) of
                          None \<Rightarrow> None
                        | Some ref \<Rightarrow>
                            (case utcoffset e ref of
                               None \<Rightarrow> None
                             | Some n \<Rightarrow>
                                 (case fixed_zone n of
                                    None \<Rightarrow> None
                                  | Some z \<Rightarrow> Some (dt\<lparr>tzinfo := Some z\<rparr>))))
                     else Some dt)
            | _ \<Rightarrow> None)
         else None)
      else None)"

text \<open>\<open>XML:CreationDateValue\<close> (lines 180 to 199).\<close>

definition mp4_xml_candidate :: "env \<Rightarrow> bag \<Rightarrow> datetime option" where
  "mp4_xml_candidate e md =
     (case grp_get md ''XML'' ''CreationDateValue'' of
        Some (TStr s) \<Rightarrow>
          (case colon_date_parts s of
             Some formatted_date_str \<Rightarrow> parse_caught e formatted_date_str
           | None \<Rightarrow> None)
      | _ \<Rightarrow> None)"

text \<open>
  \<open>QuickTime:CreateDate\<close> (lines 202 to 260). The test \<open>':' in date_str\<close> stands outside
  every \<open>try\<close>: a value that is a number raises \<open>TypeError\<close> out of \<open>process\<close>. The parser's
  \<open>ValueError\<close> leads to the manual fallback, any other exception is caught and ignored.
\<close>

definition mp4_quicktime_candidate :: "env \<Rightarrow> bag \<Rightarrow> error + datetime option" where
  "mp4_quicktime_candidate e md =
     (case grp_get md ''QuickTime'' ''CreateDate'' of
        None \<Rightarrow> Inr None
      | Some (TNum n) \<Rightarrow> Inl TypeError
      | Some (TStr s) \<Rightarrow>
          (let date_str =
                 (if CHR '':'' \<in> set s
                  then (case colon_date_parts s of Some d \<Rightarrow> d | None \<Rightarrow> s)
                  else s);
               tz_offset = grp_get md ''QuickTime'' ''TimeZone''
           in case parse e (date_str @ offset_text tz_offset) of
                Parsed dt \<Rightarrow> Inr (Some dt)
              | ParserError \<Rightarrow> Inr (manual_timestamp e date_str tz_offset)
              | ParserOverflow \<Rightarrow> Inr None))"

definition mp4_plain_candidate :: "env \<Rightarrow> tagval option \<Rightarrow> datetime option" where
  "mp4_plain_candidate e v =
     (case v of
        Some (TStr s) \<Rightarrow> parse_caught e s
      | _ \<Rightarrow> None)"

text \<open>
  Lines 176 to 276: \<open>XML:CreationDateValue\<close>, \<open>QuickTime:CreateDate\<close>,
  \<open>System:FileModifyDate\<close>, \<open>XML:LastUpdate\<close>.
\<close>

definition sony_mp4_timestamp :: "env \<Rightarrow> bag \<Rightarrow> error + datetime option" where
  "sony_mp4_timestamp e md =
     (case mp4_xml_candidate e md of
        Some dt \<Rightarrow> Inr (Some dt)
      | None \<Rightarrow>
     (case mp4_quicktime_candidate e md of
        Inl err \<Rightarrow> Inl err
      | Inr (Some dt) \<Rightarrow> Inr (Some dt)
      | Inr None \<Rightarrow>
     (case mp4_plain_candidate e (grp_get md ''System'' ''FileModifyDate'') of
        Some dt \<Rightarrow> Inr (Some dt)
      | None \<Rightarrow> Inr (mp4_plain_candidate e (grp_get md ''XML'' ''LastUpdate'')))))"

subsection \<open>Choosing the timestamp (FileProcessor.process, lines 76 to 297)\<close>

definition is_sony_arw :: "string \<Rightarrow> bool" where
  "is_sony_arw filename = (py_lower (path_suffix filename) = ''.arw'')"

definition is_sony_mp4 :: "string \<Rightarrow> bool" where
  "is_sony_mp4 filename =
     (py_lower (path_suffix filename) = ''.mp4'' \<and> py_startswith ''C'' filename)"

definition sony_timestamp_of :: "env \<Rightarrow> string \<Rightarrow> bag \<Rightarrow> error + datetime option" where
  "sony_timestamp_of e filename md =
     (if is_sony_arw filename then Inr (sony_arw_timestamp e md)
      else if is_sony_mp4 filename then sony_mp4_timestamp e md
      else Inr None)"

text \<open>
  \<open>metadata_timestamp\<close> is \<open>sony_timestamp\<close> when there is one and the generic resolution
  otherwise; the generic resolution is called for every file without a Sony timestamp,
  also when the filename timestamp is the one used.
\<close>

definition resolve_timestamp :: "env \<Rightarrow> string \<Rightarrow> bag \<Rightarrow> string \<Rightarrow> error + datetime option" where
  "resolve_timestamp e filename md timezone_str =
     (let filename_timestamp = extract_timestamp_from_filename filename in
      case sony_timestamp_of e filename md of
        Inl err \<Rightarrow> Inl err
      | Inr sony_timestamp \<Rightarrow>
          (case (case sony_timestamp of
                   Some dt \<Rightarrow> Inr (Some dt)
                 | None \<Rightarrow> extract_timestamp_from_metadata e md timezone_str) of
             Inl err \<Rightarrow> Inl err
           | Inr metadata_timestamp \<Rightarrow>
               Inr (if is_sony_arw filename \<or> is_sony_mp4 filename
                    then (case sony_timestamp of
                            Some dt \<Rightarrow> Some dt
                          | None \<Rightarrow> metadata_timestamp)
                    else (case filename_timestamp of
                            Some dt \<Rightarrow> Some dt
                          | None \<Rightarrow> metadata_timestamp))))"

section \<open>Filename synthesis (FileProcessor.\_generate\_new\_filename)\<close>

text \<open>
  \<open>s.replace(old, new)\<close>: the occurrences of \<open>old\<close> are replaced from left to right, and
  the search goes on behind each replaced occurrence. Every call of the source has a
  non-empty \<open>old\<close>.
\<close>

function py_replace :: "string \<Rightarrow> string \<Rightarrow> string \<Rightarrow> string" where
  "py_replace old new [] = []"
| "py_replace old new (c # cs) =
     (if old \<noteq> [] \<and> py_startswith old (c # cs)
      then new @ py_replace old new (drop (length old) (c # cs))
      else c # py_replace old new cs)"
  by pat_completeness auto
termination
  by (relation "measure (\<lambda>(old, new, s). length s)") auto

text \<open>
  \<open>re.sub(r'\{[^\}]+\}', '', s)\<close>: at an opening brace, the longest run of characters other
  than the closing brace must be non-empty and be followed by a closing brace; the match
  is removed and the scan goes on behind it.
\<close>

function strip_placeholders :: "string \<Rightarrow> string" where
  "strip_placeholders [] = []"
| "strip_placeholders (c # cs) =
     (if c = CHR ''{'' \<and> takeWhile (\<lambda>x. x \<noteq> CHR ''}'') cs \<noteq> [] \<and>
         dropWhile (\<lambda>x. x \<noteq> CHR ''}'') cs \<noteq> []
      then strip_placeholders (tl (dropWhile (\<lambda>x. x \<noteq> CHR ''}'') cs))
      else c # strip_placeholders cs)"
  by pat_completeness auto
termination
proof (relation "measure length")
  show "wf (measure length)" by simp
next
  fix c :: char and cs :: string
  have "length (dropWhile (\<lambda>x. x \<noteq> CHR ''}'') cs) \<le> length cs"
    by (rule length_dropWhile_le)
  then show "(tl (dropWhile (\<lambda>x. x \<noteq> CHR ''}'') cs), c # cs) \<in> measure length"
    by simp
next
  fix c :: char and cs :: string
  show "(cs, c # cs) \<in> measure length" by simp
qed

text \<open>
  The characters that \<open>str.strip()\<close> removes: the space, U+0009 to U+000D, U+001C to
  U+001F, the next-line control U+0085 and the no-break space U+00A0.
\<close>

definition is_space :: "char \<Rightarrow> bool" where
  "is_space c = (c \<in> set [CHR '' '', CHR 0x09, CHR 0x0A, CHR 0x0B, CHR 0x0C, CHR 0x0D,
                            CHR 0x1C, CHR 0x1D, CHR 0x1E, CHR 0x1F, CHR 0x85, CHR 0xA0])"

definition py_strip :: "string \<Rightarrow> string" where
  "py_strip s = rev (dropWhile is_space (rev (dropWhile is_space s)))"

definition EXTENSION_MAPPING :: "(string \<times> string) list" where
  "EXTENSION_MAPPING =
     [(''.jpeg'', ''.jpg''), (''.dng'', ''.dng''), (''.arw'', ''.arw''), (''.mp4'', ''.mp4'')]"

definition get_normalized_extension :: "string \<Rightarrow> string" where
  "get_normalized_extension extension =
     (let ext = py_lower extension in
      case map_of EXTENSION_MAPPING ext of Some m \<Rightarrow> m | None \<Rightarrow> ext)"

definition FILENAME_PATTERNS :: "((device \<times> media) \<times> string) list" where
  "FILENAME_PATTERNS =
     [((dji_drone, image_media), ''{date}-{time}-{sequence}-DJI-{model}-{focal_length}{ext}''),
      ((dji_drone, video_media), ''{date}-{time}-{resolution}-{fps}-{duration}-DJI-{model}{ext}''),
      ((sony_camera, image_media), ''{date}-{time}-{shutter_count}-{make}-{model}{ext}''),
      ((sony_camera, video_media),
         ''{date}-{time}-{resolution}-{fps}-{duration}-{make}-{model}{ext}''),
      ((dji_rc_pro, video_media),
         ''{date}-{time}-{resolution}-{fps}-{duration}-{make}-{model}{ext}'')]"

definition default_pattern :: string where
  "default_pattern = ''{date}-{time}-{make}-{model}{ext}''"

text \<open>\<open>FILENAME_PATTERNS.get((device_type, media_type), FILENAME_PATTERNS.get('default'))\<close>\<close>

definition filename_pattern :: "device option \<Rightarrow> media option \<Rightarrow> string" where
  "filename_pattern device_type media_type =
     (case (device_type, media_type) of
        (Some d, Some m) \<Rightarrow>
          (case map_of FILENAME_PATTERNS (d, m) of Some p \<Rightarrow> p | None \<Rightarrow> default_pattern)
      | _ \<Rightarrow> default_pattern)"

text \<open>
  The loops of \<open>_extract_make\<close> and \<open>_extract_model\<close>: the first field bound to a string
  that is not empty after stripping.
\<close>

fun first_stripped :: "bag \<Rightarrow> string list \<Rightarrow> string option" where
  "first_stripped md [] = None"
| "first_stripped md (field # rest) =
     (case md_get md field of
        Some (Scalar (TStr s)) \<Rightarrow>
          if s \<noteq> [] \<and> py_strip s \<noteq> [] then Some (py_strip s) else first_stripped md rest
      | _ \<Rightarrow> first_stripped md rest)"

definition extract_make :: "device option \<Rightarrow> bag \<Rightarrow> string" where
  "extract_make device_type md =
     (case first_stripped md [''Make'', ''DeviceManufacturer'', ''manufacturer''] of
        Some make_str \<Rightarrow> make_str
      | None \<Rightarrow>
          if device_type = Some dji_rc_pro then ''DJI''
          else if device_type = Some dji_drone then ''DJI''
          else if device_type = Some sony_camera then ''Sony''
          else ''Unknown'')"

definition extract_model :: "device option \<Rightarrow> bag \<Rightarrow> string" where
  "extract_model device_type md =
     (case first_stripped md [''Model'', ''DeviceModelName'', ''modelname''] of
        Some model_str \<Rightarrow> model_str
      | None \<Rightarrow>
          if device_type = Some dji_drone then ''Mavic 3 Pro''
          else if device_type = Some sony_camera then ''ILCE-7M4''
          else if device_type = Some dji_rc_pro then ''RC Pro''
          else ''Unknown'')"

text \<open>The clean-up of the make and of the model (lines 420 to 438).\<close>

definition clean_make :: "string \<Rightarrow> string" where
  "clean_make make_str = (if make_str \<noteq> [] then py_replace '' '' ''-'' make_str else make_str)"

definition clean_model :: "string \<Rightarrow> string" where
  "clean_model model_str =
     (if model_str \<noteq> [] then
        (if py_in ''RC Pro'' model_str then ''RCPro''
         else if py_in ''Mavic 3 Pro'' model_str then ''Mavic3Pro''
         else if py_in ''ILCE-'' model_str
           then py_replace '' '' ''-'' (py_replace ''ILCE-'' ''ILCE'' model_str)
         else py_replace '' '' ''-'' model_str)
      else model_str)"

text \<open>\<open>str(self.metadata.get(key, ''))\<close>\<close>

definition md_str :: "env \<Rightarrow> bag \<Rightarrow> string \<Rightarrow> string" where
  "md_str e md key =
     (case md_get md key of
        None \<Rightarrow> []
      | Some (Scalar v) \<Rightarrow> py_str v
      | Some (Group d) \<Rightarrow> dict_repr e d)"

definition extract_focal_length ::
    "env \<Rightarrow> device option \<Rightarrow> media option \<Rightarrow> string \<Rightarrow> bag \<Rightarrow> string option" where
  "extract_focal_length e device_type media_type name md =
     (if media_type \<noteq> Some image_media \<or> device_type \<noteq> Some dji_drone then None
      else
        (let filename = py_lower name;
             camera_model = py_lower (md_str e md ''Model'');
             lens_id = py_lower (md_str e md ''LensID'') in
         if py_in ''l2d-20c'' filename \<or> py_in ''l2d-20c'' camera_model \<or> py_in ''l2d-20c'' lens_id
           then Some ''24mm''
         else if py_in ''fc4382'' filename \<or> py_in ''fc4382'' camera_model \<or> py_in ''fc4382'' lens_id
           then Some ''70mm''
         else if py_in ''fc4370'' filename \<or> py_in ''fc4370'' camera_model \<or> py_in ''fc4370'' lens_id
           then Some ''166mm''
         else None))"

text \<open>
  \<open>if value: components[key] = value\<close>. The components are a dictionary in insertion
  order; assigning to a key that is present keeps its place.
\<close>

definition put_if :: "string \<Rightarrow> string option \<Rightarrow> (string \<times> string) list \<Rightarrow> (string \<times> string) list" where
  "put_if key v components =
     (case v of
        Some x \<Rightarrow> if x \<noteq> [] then AList.update key x components else components
      | None \<Rightarrow> components)"

definition build_components ::
    "env \<Rightarrow> string \<Rightarrow> bag \<Rightarrow> device option \<Rightarrow> media option \<Rightarrow> string \<Rightarrow> string
      \<Rightarrow> (string \<times> string) list" where
  "build_components e name md device_type media_type date_str time_str =
     (let components =
            [(''datetime'', date_str @ ''-'' @ time_str), (''date'', date_str),
             (''time'', time_str), (''make'', clean_make (extract_make device_type md)),
             (''model'', clean_model (extract_model device_type md)),
             (''ext'', get_normalized_extension (path_suffix name))];
          with_device =
            (if device_type = Some dji_drone then
               (let c1 = put_if ''sequence'' (extract_sequence_number device_type name) components;
                    c2 = AList.update ''model'' ''Mavic3Pro'' c1 in
                if media_type = Some image_media
                then put_if ''focal_length'' (extract_focal_length e device_type media_type name md) c2
                else c2)
             else components)
      in if media_type = Some video_media then
           put_if ''duration'' (extract_video_duration e md)
             (put_if ''fps'' (extract_fps e device_type name md)
                (put_if ''resolution'' (extract_resolution e device_type name md) with_device))
         else if media_type = Some image_media \<and> device_type = Some sony_camera then
           put_if ''shutter_count'' (extract_shutter_count e md) with_device
         else with_device)"

text \<open>One round of the substitution loop.\<close>

definition fill :: "string \<Rightarrow> string \<times> string \<Rightarrow> string" where
  "fill new_filename kv =
     (let placeholder = ''{'' @ fst kv @ ''}'' in
      if py_in placeholder new_filename then py_replace placeholder (snd kv) new_filename
      else new_filename)"

text \<open>
  The substitution, the removal of the placeholders left, one pass of
  \<open>replace('--', '-')\<close> and the replacement of the spaces. Nothing in the \<open>try\<close> can raise,
  so the result is never \<open>None\<close>.
\<close>

definition generate_new_filename ::
    "env \<Rightarrow> string \<Rightarrow> bag \<Rightarrow> device option \<Rightarrow> media option \<Rightarrow> string \<Rightarrow> string
      \<Rightarrow> string option" where
  "generate_new_filename e name md device_type media_type date_str time_str =
     (let components = build_components e name md device_type media_type date_str time_str;
          pattern = filename_pattern device_type media_type;
          filled = foldl fill pattern components
      in Some (py_replace '' '' ''-'' (py_replace ''--'' ''-'' (strip_placeholders filled))))"

section \<open>Output paths\<close>

definition zfill :: "nat \<Rightarrow> string \<Rightarrow> string" where
  "zfill n s = replicate (n - length s) (CHR ''0'') @ s"

text \<open>
  \<open>strftime\<close> with \<open>%Y\<close>, \<open>%m\<close>, \<open>%d\<close>, \<open>%H\<close>, \<open>%M\<close>, \<open>%S\<close>: the year in decimal digits (a
  year below 1000 as the platform prints it), the other fields as two digits.
\<close>

definition fmt_year :: "env \<Rightarrow> datetime \<Rightarrow> string" where
  "fmt_year e t = (if 1000 \<le> year t then digits_of_nat (year t) else short_year e (year t))"

definition fmt2 :: "nat \<Rightarrow> string" where
  "fmt2 n = zfill 2 (digits_of_nat n)"

definition get_formatted_timestamp :: "env \<Rightarrow> datetime \<Rightarrow> string \<times> string" where
  "get_formatted_timestamp e t =
     (fmt_year e t @ fmt2 (month t) @ fmt2 (day t),
      fmt2 (hour t) @ fmt2 (minute t) @ fmt2 (second t))"

text \<open>
  Paths are strings; \<open>a / b\<close> of pathlib is \<open>a\<close>, a slash and \<open>b\<close> (the paths of the model
  are in pathlib's normal form). \<open>path_name\<close> is \<open>Path.name\<close>, the last component.
\<close>

definition path_join :: "string \<Rightarrow> string \<Rightarrow> string" where
  "path_join a b = a @ ''/'' @ b"

definition path_name :: "string \<Rightarrow> string" where
  "path_name p = last (py_split (CHR ''/'') p)"

definition media_dir :: "string \<Rightarrow> media option \<Rightarrow> string" where
  "media_dir base_dir media_type =
     (case media_type of
        Some image_media \<Rightarrow> path_join base_dir ''photos''
      | Some video_media \<Rightarrow> path_join base_dir ''videos''
      | None \<Rightarrow> base_dir)"

text \<open>The directory of \<open>create_output_directory\<close>: \<open>[photos|videos]/YYYY/YYYY-MM/YYYY-MM-DD\<close>.\<close>

definition output_directory ::
    "env \<Rightarrow> string \<Rightarrow> datetime \<Rightarrow> media option \<Rightarrow> string" where
  "output_directory e base_dir t media_type =
     (let y = fmt_year e t; m = fmt2 (month t); d = fmt2 (day t) in
      path_join (path_join (path_join (media_dir base_dir media_type) y) (y @ ''-'' @ m))
        (y @ ''-'' @ m @ ''-'' @ d))"

section \<open>The file system and the tracking store\<close>

text \<open>
  The state that the batch reads and writes: the paths that exist (\<open>os.path.exists\<close>) and
  the SQLite file of \<open>PROCESSED_FILES_DB\<close>. The store is absent, or a file without the
  table (left behind by a connection that created the file and failed on its statement),
  or the table \<open>processed_files\<close> as the list of its (source path, output path) rows, the
  source path unique. The store's own I/O is taken to succeed.
\<close>

datatype store = NoFile | NoTable | Table "(string \<times> string) list"

record system =
  existing :: "string set"
  processed_files :: store

definition initialize_processed_files_db :: "system \<Rightarrow> system" where
  "initialize_processed_files_db st =
     (case processed_files st of
        Table rows \<Rightarrow> st
      | _ \<Rightarrow> st\<lparr>processed_files := Table []\<rparr>)"

text \<open>
  \<open>INSERT OR REPLACE\<close>; without the table the statement fails, the exception is caught,
  and the connection has created the file.
\<close>

definition mark_file_as_processed :: "string \<Rightarrow> string \<Rightarrow> system \<Rightarrow> system" where
  "mark_file_as_processed source_path output_path st =
     (case processed_files st of
        Table rows \<Rightarrow> st\<lparr>processed_files := Table (AList.update source_path output_path rows)\<rparr>
      | _ \<Rightarrow> st\<lparr>processed_files := NoTable\<rparr>)"

definition is_file_already_processed :: "string \<Rightarrow> string \<Rightarrow> system \<Rightarrow> bool \<times> system" where
  "is_file_already_processed source_path output_path st =
     (if output_path \<in> existing st then (True, st)
      else (case processed_files st of
              NoFile \<Rightarrow> (False, initialize_processed_files_db st)
            | NoTable \<Rightarrow> (False, st)
            | Table rows \<Rightarrow> (map_of rows source_path \<noteq> None, st)))"

text \<open>\<open>output_dir.mkdir(parents=True, exist_ok=True)\<close>: the directory and its parents exist afterwards.\<close>

fun path_prefixes :: "string list \<Rightarrow> string list list" where
  "path_prefixes [] = []"
| "path_prefixes (c # cs) = [c] # map ((#) c) (path_prefixes cs)"

definition dirs_of :: "string \<Rightarrow> string list" where
  "dirs_of p = map (py_join ''/'') (path_prefixes (py_split (CHR ''/'') p))"

definition create_output_directory ::
    "env \<Rightarrow> string \<Rightarrow> datetime \<Rightarrow> media option \<Rightarrow> system \<Rightarrow> error + string \<times> system" where
  "create_output_directory e base_dir t media_type st =
     (let output_dir = output_directory e base_dir t media_type in
      if can_mkdir e output_dir
      then Inr (output_dir, st\<lparr>existing := existing st \<union> set (dirs_of output_dir)\<rparr>)
      else Inl OSError)"

section \<open>FileProcessor.process\<close>

text \<open>
  The result is the returned path or \<open>None\<close>, or \<open>Inl\<close> for an exception that leaves
  \<open>process\<close>, together with the state afterwards.
\<close>

definition process ::
    "env \<Rightarrow> string \<Rightarrow> string \<Rightarrow> string \<Rightarrow> system \<Rightarrow> (error + string option) \<times> system" where
  "process e input_path output_base_dir timezone st =
     (let name = path_name input_path;
          metadata = extract_metadata e input_path in
      if input_path \<notin> existing st then (Inr None, st)
      else if metadata = [] then (Inr None, st)
      else
        (case (identify_device_type name metadata, identify_media_type name) of
           (Some device_type, Some media_type) \<Rightarrow>
             (case resolve_timestamp e name metadata timezone of
                Inl err \<Rightarrow> (Inl err, st)
              | Inr None \<Rightarrow> (Inr None, st)
              | Inr (Some timestamp) \<Rightarrow>
                  (case create_output_directory e output_base_dir timestamp (Some media_type) st of
                     Inl err \<Rightarrow> (Inl err, st)
                   | Inr (output_dir, st1) \<Rightarrow>
                       (case generate_new_filename e name metadata (Some device_type)
                               (Some media_type) (fst (get_formatted_timestamp e timestamp))
                               (snd (get_formatted_timestamp e timestamp)) of
                          None \<Rightarrow> (Inr None, st1)
                        | Some new_filename \<Rightarrow>
                            if new_filename = [] then (Inr None, st1)
                            else
                              (let output_path = path_join output_dir new_filename;
                                   checked = is_file_already_processed input_path output_path st1
                               in if fst checked then (Inr None, snd checked)
                                  else if can_copy e input_path output_path
                                    then (Inr (Some output_path),
                                          (snd checked)\<lparr>existing :=
                                             insert output_path (existing (snd checked))\<rparr>)
                                  else (Inr None, snd checked)))))
         | _ \<Rightarrow> (Inr None, st)))"

section \<open>The batch (main.process\_files)\<close>

text \<open>
  The dry-run branch, lines 149 to 211: the path printed after \<open>Would save to:\<close>, \<open>None\<close>
  when none is printed. \<open>processor.metadata\<close> is still the empty dictionary when
  \<open>_identify_device_type\<close> is called; it is assigned before the filename is generated.
\<close>

definition dry_run_report :: "env \<Rightarrow> string \<Rightarrow> string \<Rightarrow> string \<Rightarrow> error + string option" where
  "dry_run_report e file_path output_dir timezone =
     (let name = path_name file_path;
          metadata = extract_metadata e file_path;
          device_type = identify_device_type name [];
          media_type = identify_media_type name;
          filename_timestamp = extract_timestamp_from_filename name
      in case extract_timestamp_from_metadata e metadata timezone of
           Inl err \<Rightarrow> Inl err
         | Inr metadata_timestamp \<Rightarrow>
             (case (if device_type = Some sony_camera then metadata_timestamp
                    else (case filename_timestamp of
                            Some dt \<Rightarrow> Some dt
                          | None \<Rightarrow> metadata_timestamp)) of
                None \<Rightarrow> Inr None
              | Some timestamp \<Rightarrow>
                  (let year_month = fmt_year e timestamp @ ''/'' @ fmt2 (month timestamp);
                       proposed_output_dir = path_join (media_dir output_dir media_type) year_month
                   in case generate_new_filename e name metadata device_type media_type
                             (fst (get_formatted_timestamp e timestamp))
                             (snd (get_formatted_timestamp e timestamp)) of
                        None \<Rightarrow> Inr None
                      | Some new_filename \<Rightarrow>
                          if new_filename = [] then Inr None
                          else Inr (Some (path_join proposed_output_dir new_filename)))))"

text \<open>\<open>os.remove\<close> inside its own \<open>try\<close>: a failure is printed and changes nothing.\<close>

definition remove_source :: "env \<Rightarrow> string \<Rightarrow> system \<Rightarrow> system" where
  "remove_source e file_path st =
     (if can_remove e file_path then st\<lparr>existing := existing st - {file_path}\<rparr> else st)"

text \<open>
  One round of the loop over \<open>media_files\<close>; the accumulator is \<open>success_count\<close>,
  \<open>error_count\<close> and the state. An exception of the round is caught and counted as an
  error. (The constructor of \<open>FileProcessor\<close> raises when exiftool is not installed; the
  model takes it to be installed.)
\<close>

definition process_one ::
    "env \<Rightarrow> string \<Rightarrow> string \<Rightarrow> bool \<Rightarrow> bool \<Rightarrow> nat \<times> nat \<times> system \<Rightarrow> string
      \<Rightarrow> nat \<times> nat \<times> system" where
  "process_one e output_dir timezone dry_run remove_processed acc file_path =
     (let success_count = fst acc; error_count = fst (snd acc); st = snd (snd acc) in
      if dry_run then
        (case dry_run_report e file_path output_dir timezone of
           Inl err \<Rightarrow> (success_count, error_count + 1, st)
         | Inr report \<Rightarrow> (success_count + 1, error_count, st))
      else
        (case process e file_path output_dir timezone st of
           (Inl err, st1) \<Rightarrow> (success_count, error_count + 1, st1)
         | (Inr None, st1) \<Rightarrow> (success_count, error_count + 1, st1)
         | (Inr (Some output_path), st1) \<Rightarrow>
             (let st2 = mark_file_as_processed file_path output_path st1 in
              (success_count + 1, error_count,
               if remove_processed then remove_source e file_path st2 else st2))))"

definition process_files ::
    "env \<Rightarrow> string list \<Rightarrow> string \<Rightarrow> string \<Rightarrow> bool \<Rightarrow> bool \<Rightarrow> system \<Rightarrow> nat \<times> nat \<times> system" where
  "process_files e media_files output_dir timezone dry_run remove_processed st =
     foldl (process_one e output_dir timezone dry_run remove_processed)
       (0, 0, if dry_run then st else initialize_processed_files_db st) media_files"

section \<open>The already-processed condition\<close>

text \<open>
  The condition under which \<open>process\<close> reaches its check at line 318 and the check holds:
  the file exists, its bag is not empty, it is classified, a timestamp is resolved, the
  output directory can be made, and then the computed output path exists or the source
  path has a row in the tracking store. \<open>skip_dirs\<close> are the directories that
  \<open>create_output_directory\<close> has made by then.
\<close>

definition tracked :: "system \<Rightarrow> string \<Rightarrow> bool" where
  "tracked st source_path =
     (case processed_files st of
        Table rows \<Rightarrow> map_of rows source_path \<noteq> None
      | _ \<Rightarrow> False)"

definition already_processed :: "env \<Rightarrow> string \<Rightarrow> string \<Rightarrow> system \<Rightarrow> string \<Rightarrow> bool" where
  "already_processed e output_base_dir timezone st input_path =
     (let name = path_name input_path;
          metadata = extract_metadata e input_path in
      input_path \<in> existing st \<and> metadata \<noteq> [] \<and>
      (case (identify_device_type name metadata, identify_media_type name,
             resolve_timestamp e name metadata timezone) of
         (Some device_type, Some media_type, Inr (Some timestamp)) \<Rightarrow>
           can_mkdir e (output_directory e output_base_dir timestamp (Some media_type)) \<and>
           (case generate_new_filename e name metadata (Some device_type) (Some media_type)
                   (fst (get_formatted_timestamp e timestamp))
                   (snd (get_formatted_timestamp e timestamp)) of
              Some new_filename \<Rightarrow>
                new_filename \<noteq> [] \<and>
                (path_join (output_directory e output_base_dir timestamp (Some media_type))
                   new_filename \<in> existing st \<or>
                 tracked st input_path)
            | None \<Rightarrow> False)
       | _ \<Rightarrow> False))"

definition skip_dirs :: "env \<Rightarrow> string \<Rightarrow> string \<Rightarrow> string \<Rightarrow> string set" where
  "skip_dirs e output_base_dir timezone input_path =
     (let name = path_name input_path in
      case (identify_media_type name,
            resolve_timestamp e name (extract_metadata e input_path) timezone) of
        (Some media_type, Inr (Some timestamp)) \<Rightarrow>
          set (dirs_of (output_directory e output_base_dir timestamp (Some media_type)))
      | _ \<Rightarrow> {})"

section \<open>Example inputs\<close>

text \<open>
  A behaviour of the libraries for the examples below: the parser reads two ISO strings,
  one without and one with an offset, and rejects every other string; the system's zone is
  UTC; the bag of a path holds the \<open>SourceFile\<close> tag that exiftool always writes (and an
  \<open>IFD0:ModifyDate\<close> for the paths of camera files), except for one path whose extraction
  fails; no video or shutter-count field is present; a year below 1000 is printed with
  four digits; the operating system permits every operation.
\<close>

definition sample_naive :: datetime where
  "sample_naive = \<lparr>year = 2024, month = 1, day = 1, hour = 10, minute = 0, second = 0,
                     microsecond = 0, tzinfo = None\<rparr>"

definition sample_aware :: datetime where
  "sample_aware = \<lparr>year = 2023, month = 6, day = 15, hour = 14, minute = 30, second = 22,
                     microsecond = 0, tzinfo = Some (tzoffset 7200)\<rparr>"

definition sample_parse :: "string \<Rightarrow> parsed" where
  "sample_parse s =
     (if s = ''2024-01-01 10:00:00'' then Parsed sample_naive
      else if s = ''2023-06-15 14:30:22+02:00'' then Parsed sample_aware
      else ParserError)"

text \<open>
  Bags in the shape the extractor builds: the group's dictionary, then its tags under
  \<open>group:tag\<close> and under the bare tag name.
\<close>

definition camera_bag :: "string \<Rightarrow> bag" where
  "camera_bag p =
     [(''SourceFile'', Scalar (TStr p)),
      (''IFD0'', Group [(''ModifyDate'', TStr ''2024:01:01 10:00:00'')]),
      (''IFD0:ModifyDate'', Scalar (TStr ''2024:01:01 10:00:00'')),
      (''ModifyDate'', Scalar (TStr ''2024:01:01 10:00:00''))]"

definition system_bag :: bag where
  "system_bag =
     [(''SourceFile'', Scalar (TStr ''input/clip.mp4'')),
      (''System'', Group [(''FileModifyDate'', TStr ''2023-06-15 14:30:22+02:00'')]),
      (''System:FileModifyDate'', Scalar (TStr ''2023-06-15 14:30:22+02:00'')),
      (''FileModifyDate'', Scalar (TStr ''2023-06-15 14:30:22+02:00''))]"

definition quicktime_bag :: bag where
  "quicktime_bag =
     system_bag @
     [(''QuickTime'', Group [(''CreateDate'', TStr ''2024-01-01 10:00:00'')]),
      (''QuickTime:CreateDate'', Scalar (TStr ''2024-01-01 10:00:00'')),
      (''CreateDate'', Scalar (TStr ''2024-01-01 10:00:00''))]"

definition sample_metadata :: "string \<Rightarrow> bag" where
  "sample_metadata p =
     (if p = ''input/broken/DJI_20230615143022_0007_D.jpg'' then []
      else if py_in ''DSC'' p then camera_bag p
      else [(''SourceFile'', Scalar (TStr p))])"

definition sample_env :: env where
  "sample_env =
     \<lparr>parse = sample_parse, parse_fuzzy = sample_parse,
      py_int = (\<lambda>s. None), py_int_of_float = (\<lambda>s. None),
      localtime = (\<lambda>dt. if dt = sample_aware then Some (sample_aware\<lparr>hour := 12\<rparr>) else Some dt),
      local_utcoffset = (\<lambda>dt. 0),
      extract_resolution = (\<lambda>device_type name md. None),
      extract_fps = (\<lambda>device_type name md. None),
      extract_video_duration = (\<lambda>md. None),
      extract_shutter_count = (\<lambda>md. None),
      short_year = (\<lambda>y. zfill 4 (digits_of_nat y)),
      dict_repr = (\<lambda>d. []),
      extract_metadata = sample_metadata,
      can_mkdir = (\<lambda>p. True), can_copy = (\<lambda>p q. True), can_remove = (\<lambda>p. True)\<rparr>"

definition dji_name :: string where
  "dji_name = ''DJI_20230615143022_0007_D.jpg''"

definition dji_timestamp :: datetime where
  "dji_timestamp = \<lparr>year = 2023, month = 6, day = 15, hour = 14, minute = 30, second = 22,
                      microsecond = 0, tzinfo = Some tzlocal\<rparr>"

definition dji_path :: string where
  "dji_path = ''input/DJI_20230615143022_0007_D.jpg''"

definition dji_output_path :: string where
  "dji_output_path =
     ''output/photos/2023/2023-06/2023-06-15/20230615-143022-0007-DJI-Mavic3Pro-.jpg''"

text \<open>
  Three states for the file \<open>dji_path\<close>: not processed yet; with a row for it in the
  tracking store; with its output file in place.
\<close>

definition fresh_state :: system where
  "fresh_state = \<lparr>existing = {dji_path}, processed_files = Table []\<rparr>"

definition tracked_state :: system where
  "tracked_state = \<lparr>existing = {dji_path}, processed_files = Table [(dji_path, ''elsewhere.jpg'')]\<rparr>"

definition copied_state :: system where
  "copied_state = \<lparr>existing = {dji_path, dji_output_path}, processed_files = Table []\<rparr>"

section \<open>Properties of the string helpers\<close>

lemma lower_table:
  "zip upper_letters lower_letters =
     [(CHR ''A'', CHR ''a''), (CHR ''B'', CHR ''b''), (CHR ''C'', CHR ''c''),
      (CHR ''D'', CHR ''d''), (CHR ''E'', CHR ''e''), (CHR ''F'', CHR ''f''),
      (CHR ''G'', CHR ''g''), (CHR ''H'', CHR ''h''), (CHR ''I'', CHR ''i''),
      (CHR ''J'', CHR ''j''), (CHR ''K'', CHR ''k''), (CHR ''L'', CHR ''l''),
      (CHR ''M'', CHR ''m''), (CHR ''N'', CHR ''n''), (CHR ''O'', CHR ''o''),
      (CHR ''P'', CHR ''p''), (CHR ''Q'', CHR ''q''), (CHR ''R'', CHR ''r''),
      (CHR ''S'', CHR ''s''), (CHR ''T'', CHR ''t''), (CHR ''U'', CHR ''u''),
      (CHR ''V'', CHR ''v''), (CHR ''W'', CHR ''w''), (CHR ''X'', CHR ''x''),
      (CHR ''Y'', CHR ''y''), (CHR ''Z'', CHR ''z''), (CHR 0xC0, CHR 0xE0),
      (CHR 0xC1, CHR 0xE1), (CHR 0xC2, CHR 0xE2), (CHR 0xC3, CHR 0xE3),
      (CHR 0xC4, CHR 0xE4), (CHR 0xC5, CHR 0xE5), (CHR 0xC6, CHR 0xE6),
      (CHR 0xC7, CHR 0xE7), (CHR 0xC8, CHR 0xE8), (CHR 0xC9, CHR 0xE9),
      (CHR 0xCA, CHR 0xEA), (CHR 0xCB, CHR 0xEB), (CHR 0xCC, CHR 0xEC),
      (CHR 0xCD, CHR 0xED), (CHR 0xCE, CHR 0xEE), (CHR 0xCF, CHR 0xEF),
      (CHR 0xD0, CHR 0xF0), (CHR 0xD1, CHR 0xF1), (CHR 0xD2, CHR 0xF2),
      (CHR 0xD3, CHR 0xF3), (CHR 0xD4, CHR 0xF4), (CHR 0xD5, CHR 0xF5),
      (CHR 0xD6, CHR 0xF6), (CHR 0xD8, CHR 0xF8), (CHR 0xD9, CHR 0xF9),
      (CHR 0xDA, CHR 0xFA), (CHR 0xDB, CHR 0xFB), (CHR 0xDC, CHR 0xFC),
      (CHR 0xDD, CHR 0xFD), (CHR 0xDE, CHR 0xFE)]"
  by (simp add: upper_letters_def lower_letters_def)

text \<open>\<open>str.lower\<close> on the printable ASCII characters, one equation for each.\<close>

lemma lower_char_ascii:
  "lower_char (CHR '' '') = CHR '' ''" "lower_char (CHR ''!'') = CHR ''!''"
  "lower_char (CHR 0x22) = CHR 0x22" "lower_char (CHR ''#'') = CHR ''#''"
  "lower_char (CHR ''$'') = CHR ''$''" "lower_char (CHR ''%'') = CHR ''%''"
  "lower_char (CHR ''&'') = CHR ''&''" "lower_char (CHR 0x27) = CHR 0x27"
  "lower_char (CHR ''('') = CHR ''(''" "lower_char (CHR '')'') = CHR '')''"
  "lower_char (CHR ''*'') = CHR ''*''" "lower_char (CHR ''+'') = CHR ''+''"
  "lower_char (CHR '','') = CHR '',''" "lower_char (CHR ''-'') = CHR ''-''"
  "lower_char (CHR ''.'') = CHR ''.''" "lower_char (CHR ''/'') = CHR ''/''"
  "lower_char (CHR ''0'') = CHR ''0''" "lower_char (CHR ''1'') = CHR ''1''"
  "lower_char (CHR ''2'') = CHR ''2''" "lower_char (CHR ''3'') = CHR ''3''"
  "lower_char (CHR ''4'') = CHR ''4''" "lower_char (CHR ''5'') = CHR ''5''"
  "lower_char (CHR ''6'') = CHR ''6''" "lower_char (CHR ''7'') = CHR ''7''"
  "lower_char (CHR ''8'') = CHR ''8''" "lower_char (CHR ''9'') = CHR ''9''"
  "lower_char (CHR '':'') = CHR '':''" "lower_char (CHR '';'') = CHR '';''"
  "lower_char (CHR ''<'') = CHR ''<''" "lower_char (CHR ''='') = CHR ''=''"
  "lower_char (CHR ''>'') = CHR ''>''" "lower_char (CHR ''?'') = CHR ''?''"
  "lower_char (CHR ''@'') = CHR ''@''" "lower_char (CHR ''A'') = CHR ''a''"
  "lower_char (CHR ''B'') = CHR ''b''" "lower_char (CHR ''C'') = CHR ''c''"
  "lower_char (CHR ''D'') = CHR ''d''" "lower_char (CHR ''E'') = CHR ''e''"
  "lower_char (CHR ''F'') = CHR ''f''" "lower_char (CHR ''G'') = CHR ''g''"
  "lower_char (CHR ''H'') = CHR ''h''" "lower_char (CHR ''I'') = CHR ''i''"
  "lower_char (CHR ''J'') = CHR ''j''" "lower_char (CHR ''K'') = CHR ''k''"
  "lower_char (CHR ''L'') = CHR ''l''" "lower_char (CHR ''M'') = CHR ''m''"
  "lower_char (CHR ''N'') = CHR ''n''" "lower_char (CHR ''O'') = CHR ''o''"
  "lower_char (CHR ''P'') = CHR ''p''" "lower_char (CHR ''Q'') = CHR ''q''"
  "lower_char (CHR ''R'') = CHR ''r''" "lower_char (CHR ''S'') = CHR ''s''"
  "lower_char (CHR ''T'') = CHR ''t''" "lower_char (CHR ''U'') = CHR ''u''"
  "lower_char (CHR ''V'') = CHR ''v''" "lower_char (CHR ''W'') = CHR ''w''"
  "lower_char (CHR ''X'') = CHR ''x''" "lower_char (CHR ''Y'') = CHR ''y''"
  "lower_char (CHR ''Z'') = CHR ''z''" "lower_char (CHR ''['') = CHR ''[''"
  "lower_char (CHR 0x5C) = CHR 0x5C" "lower_char (CHR '']'') = CHR '']''"
  "lower_char (CHR ''^'') = CHR ''^''" "lower_char (CHR ''_'') = CHR ''_''"
  "lower_char (CHR ''`'') = CHR ''`''" "lower_char (CHR ''a'') = CHR ''a''"
  "lower_char (CHR ''b'') = CHR ''b''" "lower_char (CHR ''c'') = CHR ''c''"
  "lower_char (CHR ''d'') = CHR ''d''" "lower_char (CHR ''e'') = CHR ''e''"
  "lower_char (CHR ''f'') = CHR ''f''" "lower_char (CHR ''g'') = CHR ''g''"
  "lower_char (CHR ''h'') = CHR ''h''" "lower_char (CHR ''i'') = CHR ''i''"
  "lower_char (CHR ''j'') = CHR ''j''" "lower_char (CHR ''k'') = CHR ''k''"
  "lower_char (CHR ''l'') = CHR ''l''" "lower_char (CHR ''m'') = CHR ''m''"
  "lower_char (CHR ''n'') = CHR ''n''" "lower_char (CHR ''o'') = CHR ''o''"
  "lower_char (CHR ''p'') = CHR ''p''" "lower_char (CHR ''q'') = CHR ''q''"
  "lower_char (CHR ''r'') = CHR ''r''" "lower_char (CHR ''s'') = CHR ''s''"
  "lower_char (CHR ''t'') = CHR ''t''" "lower_char (CHR ''u'') = CHR ''u''"
  "lower_char (CHR ''v'') = CHR ''v''" "lower_char (CHR ''w'') = CHR ''w''"
  "lower_char (CHR ''x'') = CHR ''x''" "lower_char (CHR ''y'') = CHR ''y''"
  "lower_char (CHR ''z'') = CHR ''z''" "lower_char (CHR ''{'') = CHR ''{''"
  "lower_char (CHR ''|'') = CHR ''|''" "lower_char (CHR ''}'') = CHR ''}''"
  "lower_char (CHR ''~'') = CHR ''~''"
  by (simp_all add: lower_char_def lower_table)

lemmas lower_eval = lower_char_ascii

lemma py_split_no_sep: "sep \<notin> set a \<Longrightarrow> py_split sep a = [a]"
  by (induction a) auto

lemma py_split_append:
  "sep \<notin> set a \<Longrightarrow> py_split sep (a @ sep # rest) = a # py_split sep rest"
  by (induction a) (auto split: list.splits)

lemma is_digit_not_dot: "is_digit c \<Longrightarrow> c \<noteq> CHR ''.''"
  by (auto simp: is_digit_def)

lemma py_rfind_absent: "c \<notin> set ys \<Longrightarrow> py_rfind c ys = None"
  by (induction ys) (auto split: option.splits)

lemma py_rfind_append_absent:
  "c \<notin> set ys \<Longrightarrow> py_rfind c (xs @ c # ys) = Some (length xs)"
  by (induction xs) (auto split: option.splits simp: py_rfind_absent)

lemma path_suffix_last_dot:
  assumes "CHR ''.'' \<notin> set ext" "ext \<noteq> []" "stem \<noteq> []"
  shows "path_suffix (stem @ CHR ''.'' # ext) = CHR ''.'' # ext"
  using assms by (simp add: path_suffix_def py_rfind_append_absent)

lemma py_lower_no_dot:
  assumes "py_lower ext = ''mp4''"
  shows "CHR ''.'' \<notin> set ext \<and> ext \<noteq> []"
proof -
  have "CHR ''.'' \<notin> set (py_lower ext)" using assms by simp
  moreover have "lower_char (CHR ''.'') = CHR ''.''" by (simp add: lower_eval)
  ultimately have "CHR ''.'' \<notin> set ext"
    by (force simp: py_lower_def)
  moreover have "ext \<noteq> []" using assms by (auto simp: py_lower_def)
  ultimately show ?thesis by simp
qed

section \<open>Classification\<close>

lemma c_clip_shortcut:
  assumes "py_lower (path_suffix filename) = ''.mp4''"
    and "take 1 filename = ''C''"
    and "py_isdigit (drop 1 (hd (py_split (CHR ''.'') filename)))"
  shows "identify_device_type filename md = Some sony_camera"
  using assms by (simp add: identify_device_type_def)

text \<open>
  Claim C8, as amended. The shortcut of \<open>_identify_device_type\<close> tests the first character
  against the letter \<open>C\<close> only: a file named \<open>C\<close>, one or more digits, a dot and \<open>mp4\<close> in
  any letter case is classified as \<open>sony_camera\<close>, whatever the metadata bag holds.
\<close>

theorem c_clip_is_sony_camera:
  assumes "ds \<noteq> []" and "list_all is_digit ds" and "py_lower ext = ''mp4''"
  shows "identify_device_type (CHR ''C'' # ds @ CHR ''.'' # ext) md = Some sony_camera"
proof -
  let ?name = "CHR ''C'' # ds @ CHR ''.'' # ext"
  from assms(3) have ext: "CHR ''.'' \<notin> set ext" "ext \<noteq> []"
    using py_lower_no_dot by blast+
  have "path_suffix ((CHR ''C'' # ds) @ CHR ''.'' # ext) = CHR ''.'' # ext"
    using ext by (intro path_suffix_last_dot) simp_all
  then have suf: "py_lower (path_suffix ?name) = ''.mp4''"
    using assms(3) by (simp add: py_lower_def lower_eval)
  have nodot: "CHR ''.'' \<notin> set (CHR ''C'' # ds)"
    using assms(2) by (auto simp: list_all_iff dest: is_digit_not_dot)
  have "py_split (CHR ''.'') ((CHR ''C'' # ds) @ CHR ''.'' # ext)
          = (CHR ''C'' # ds) # py_split (CHR ''.'') ext"
    using nodot by (rule py_split_append)
  then have base: "hd (py_split (CHR ''.'') ?name) = CHR ''C'' # ds" by simp
  have "py_isdigit (drop 1 (hd (py_split (CHR ''.'') ?name)))"
    unfolding base using assms(1,2)
    by (auto simp: py_isdigit_def isdigit_char_def list_all_iff)
  with suf show ?thesis by (intro c_clip_shortcut) simp_all
qed

text \<open>
  The clip \<open>C0001.MP4\<close> is a Sony file even when the bag's \<open>make\<close> names DJI, the first
  device of the rule table.
\<close>

theorem c_clip_is_sony_camera_witness:
  "identify_device_type ''C0001.MP4'' [(''make'', Scalar (TStr ''DJI''))] = Some sony_camera"
  using c_clip_is_sony_camera [of "''0001''" "''MP4''" "[(''make'', Scalar (TStr ''DJI''))]"]
  by (simp add: is_digit_def py_lower_def lower_eval)

text \<open>
  Claim C8 as stated fails: \<open>A0001.MP4\<close> is a video whose base name is a capital letter
  followed by digits, and with a bag that matches no rule it is not classified at all.
\<close>

theorem other_capital_clip_counterexample:
  "py_lower (path_suffix ''A0001.MP4'') = ''.mp4'' \<and>
   hd (py_split (CHR ''.'') ''A0001.MP4'') = ''A0001'' \<and>
   identify_device_type ''A0001.MP4'' [] = None"
  by (simp add: identify_device_type_def path_suffix_def py_lower_def lower_eval
      py_startswith_def device_matches_def DEVICE_PATTERNS_def metadata_pattern_hit_def
      md_get_def py_isdigit_def isdigit_char_def is_digit_def)

section \<open>Sequence number\<close>

text \<open>
  Claim C10. For a file classified as \<open>dji_drone\<close>, \<open>_extract_sequence_number\<close> returns the
  third underscore-separated piece of the filename, whatever its characters, when there
  are three pieces or more (exactly three, or further pieces after it), and \<open>None\<close> when
  there are one or two.
\<close>

theorem sequence_is_third_token:
  assumes "CHR ''_'' \<notin> set a" and "CHR ''_'' \<notin> set b" and "CHR ''_'' \<notin> set c"
  shows "extract_sequence_number (Some dji_drone) (a @ ''_'' @ b @ ''_'' @ c) = Some c \<and>
         extract_sequence_number (Some dji_drone) (a @ ''_'' @ b @ ''_'' @ c @ ''_'' @ rest)
           = Some c \<and>
         extract_sequence_number (Some dji_drone) (a @ ''_'' @ b) = None \<and>
         extract_sequence_number (Some dji_drone) a = None"
  using assms
  by (simp add: extract_sequence_number_def py_split_append py_split_no_sep)

theorem sequence_is_third_token_witness:
  "extract_sequence_number (Some dji_drone) ''DJI_x_abc_y.jpg'' = Some ''abc'' \<and>
   extract_sequence_number (Some dji_drone) ''DJI_x_abc'' = Some ''abc'' \<and>
   extract_sequence_number (Some dji_drone) ''DJI_x'' = None \<and>
   extract_sequence_number (Some dji_drone) ''DJI'' = None"
  using sequence_is_third_token [of "''DJI''" "''x''" "''abc''" "''y.jpg''"]
  by simp

section \<open>Timestamps\<close>

lemma mk_datetime_tz: "mk_datetime y mo d h mi s tz = Some dt \<Longrightarrow> tzinfo dt = tz"
  by (auto simp: mk_datetime_def split: if_splits)

lemma try_pattern_local: "try_pattern p f = Some dt \<Longrightarrow> tzinfo dt = Some tzlocal"
  by (auto simp: try_pattern_def datetime_of_groups_def split: option.splits list.splits dest: mk_datetime_tz)

lemma filename_timestamp_local:
  "extract_timestamp_from_filename f = Some dt \<Longrightarrow> tzinfo dt = Some tzlocal"
  by (auto simp: extract_timestamp_from_filename_def split: option.splits dest: try_pattern_local)

lemma astimezone_aware: "astimezone e dt tz = Inr dt' \<Longrightarrow> tzinfo dt' = Some tz"
  by (auto simp: astimezone_def split: option.splits)

lemma scan_fields_aware:
  "scan_fields e flat md tzs tz fs = Inr (Some dt) \<Longrightarrow> tzinfo dt \<noteq> None"
proof (induction fs)
  case Nil
  then show ?case by simp
next
  case (Cons f fs)
  then show ?case
    by (auto split: option.splits parsed.splits sum.splits if_splits dest: astimezone_aware)
qed

lemma file_modify_date_aware:
  "file_modify_date e md tz = Inr (Some dt) \<Longrightarrow> tzinfo dt \<noteq> None"
  by (auto simp: file_modify_date_def split: option.splits tagval.splits parsed.splits if_splits)

lemma metadata_timestamp_aware:
  "extract_timestamp_from_metadata e md tzs = Inr (Some dt) \<Longrightarrow> tzinfo dt \<noteq> None"
  unfolding extract_timestamp_from_metadata_def Let_def
  by (auto split: sum.splits option.splits dest: scan_fields_aware file_modify_date_aware)

lemma dji_name_timestamp: "extract_timestamp_from_filename dji_name = Some dji_timestamp"
  by (simp add: dji_name_def dji_timestamp_def extract_timestamp_from_filename_def try_pattern_def dji_pattern_def py_startswith_def is_digit_def datetime_of_groups_def int_of_digits_def digit_val_def mk_datetime_def days_in_month_def)

text \<open>Unfolding rules for evaluating the model on concrete inputs.\<close>

lemmas ts_eval = extract_timestamp_from_filename_def try_pattern_def dji_pattern_def
  screen_pattern_def generic_pattern_def
  py_startswith_def is_digit_def datetime_of_groups_def int_of_digits_def digit_val_def
  mk_datetime_def days_in_month_def is_leap_def

lemmas name_eval = path_suffix_def py_lower_def lower_eval py_isdigit_def isdigit_char_def
  py_startswith_def

lemmas classify_eval = identify_device_type_def identify_media_type_def device_matches_def
  DEVICE_PATTERNS_def metadata_pattern_hit_def md_get_def

lemmas sony_eval = resolve_timestamp_def sony_timestamp_of_def is_sony_arw_def is_sony_mp4_def
  sony_arw_timestamp_def arw_candidate_def arw_exif_candidate_def grp_get_def group_def
  parse_caught_def colon_date_def split_once_def replace_char_def offset_text_def
  sony_mp4_timestamp_def mp4_xml_candidate_def mp4_quicktime_candidate_def
  mp4_plain_candidate_def colon_date_parts_def

lemmas generic_eval = extract_timestamp_from_metadata_def get_tz_def flatten_metadata_def
  flatten_group_def flat_key_def quicktime_step_def lookup_str_def timestamp_fields_def
  offset_fields_def file_modify_date_def astimezone_def AList.update.simps py_str_def

lemmas sample_eval = sample_env_def sample_parse_def sample_naive_def sample_aware_def
  sample_metadata_def camera_bag_def system_bag_def quicktime_bag_def

text \<open>
  Claim C4, as amended. \<open>extract_timestamp_from_filename\<close> takes the filename alone and tags
  every instant it parses with the system's local zone. The timezone given to
  \<open>FileProcessor\<close> has no influence: for a file that does not take the Sony branch, the
  filename's instant is the resolved timestamp under every configured timezone (whenever the
  generic metadata resolution, which is called all the same, returns).
\<close>

theorem filename_timestamp_is_local:
  assumes "extract_timestamp_from_filename name = Some dt"
  shows "tzinfo dt = Some tzlocal \<and>
         (\<not> is_sony_arw name \<and> \<not> is_sony_mp4 name \<and>
          extract_timestamp_from_metadata e md timezone_str = Inr m
          \<longrightarrow> resolve_timestamp e name md timezone_str = Inr (Some dt))"
  using assms filename_timestamp_local [OF assms]
  by (simp add: resolve_timestamp_def sony_timestamp_of_def)

theorem filename_timestamp_is_local_witness:
  "tzinfo dji_timestamp = Some tzlocal \<and>
   resolve_timestamp sample_env dji_name [(''SourceFile'', Scalar (TStr ''input/x''))] ''UTC''
     = Inr (Some dji_timestamp)"
proof -
  have a: "extract_timestamp_from_filename dji_name = Some dji_timestamp"
    by (rule dji_name_timestamp)
  have b: "\<not> is_sony_arw dji_name \<and> \<not> is_sony_mp4 dji_name"
    by (simp add: dji_name_def is_sony_arw_def is_sony_mp4_def name_eval py_startswith_def)
  have c: "extract_timestamp_from_metadata sample_env
             [(''SourceFile'', Scalar (TStr ''input/x''))] ''UTC'' = Inr None"
    by (simp add: generic_eval sample_eval group_def grp_get_def md_get_def)
  from filename_timestamp_is_local [OF a, of sample_env
      "[(''SourceFile'', Scalar (TStr ''input/x''))]" "''UTC''" None] b c
  show ?thesis by simp
qed

text \<open>
  Claim C4 as stated fails: configured with \<open>UTC\<close> and with \<open>Asia/Tokyo\<close>, the timestamp of
  \<open>DJI_20230615143022_0007_D.jpg\<close> is the same instant tagged with the local zone, so it
  carries neither configured zone.
\<close>

theorem configured_zone_ignored_counterexample:
  "resolve_timestamp sample_env ''DJI_20230615143022_0007_D.jpg''
       [(''SourceFile'', Scalar (TStr ''input/x''))] ''UTC''
     = Inr (Some \<lparr>year = 2023, month = 6, day = 15, hour = 14, minute = 30, second = 22,
                   microsecond = 0, tzinfo = Some tzlocal\<rparr>) \<and>
   resolve_timestamp sample_env ''DJI_20230615143022_0007_D.jpg''
       [(''SourceFile'', Scalar (TStr ''input/x''))] ''Asia/Tokyo''
     = Inr (Some \<lparr>year = 2023, month = 6, day = 15, hour = 14, minute = 30, second = 22,
                   microsecond = 0, tzinfo = Some tzlocal\<rparr>)"
  by (simp add: sony_eval name_eval ts_eval generic_eval sample_eval md_get_def)

text \<open>
  Claim C5, as amended. A timestamp from the filename patterns or from the generic
  metadata resolution carries a zone. A resolved timestamp without a zone is always the
  value that the Sony candidates took from the parser, which \<open>process\<close> passes on as it is.
\<close>

theorem naive_only_from_sony_chain:
  "(extract_timestamp_from_filename name = Some dt \<longrightarrow> tzinfo dt \<noteq> None) \<and>
   (extract_timestamp_from_metadata e md timezone_str = Inr (Some dt) \<longrightarrow> tzinfo dt \<noteq> None) \<and>
   (resolve_timestamp e name md timezone_str = Inr (Some dt) \<and> tzinfo dt = None
      \<longrightarrow> sony_timestamp_of e name md = Inr (Some dt))"
proof (intro conjI impI)
  assume "extract_timestamp_from_filename name = Some dt"
  then show "tzinfo dt \<noteq> None" by (simp add: filename_timestamp_local)
next
  assume "extract_timestamp_from_metadata e md timezone_str = Inr (Some dt)"
  then show "tzinfo dt \<noteq> None" by (rule metadata_timestamp_aware)
next
  assume a: "resolve_timestamp e name md timezone_str = Inr (Some dt) \<and> tzinfo dt = None"
  show "sony_timestamp_of e name md = Inr (Some dt)"
  proof (cases "sony_timestamp_of e name md")
    case (Inl err)
    with a show ?thesis by (simp add: resolve_timestamp_def)
  next
    case (Inr sony)
    show ?thesis
    proof (cases sony)
      case (Some t)
      with a Inr show ?thesis
        by (auto simp: resolve_timestamp_def sony_timestamp_of_def split: if_splits)
    next
      case None
      with a Inr have "tzinfo dt \<noteq> None"
        by (auto simp: resolve_timestamp_def split: sum.splits option.splits if_splits
            dest: metadata_timestamp_aware filename_timestamp_local)
      with a show ?thesis by simp
    qed
  qed
qed


lemma arw_resolves_naive:
  "resolve_timestamp sample_env ''DSC00123.ARW'' (camera_bag ''input/DSC00123.ARW'') ''local'' = Inr (Some sample_naive)"
  by (simp add: camera_bag_def sony_eval name_eval sample_eval md_get_def)

theorem naive_only_from_sony_chain_witness:
  "tzinfo dji_timestamp \<noteq> None \<and>
   tzinfo (sample_aware\<lparr>hour := 12, tzinfo := Some tzlocal\<rparr>) \<noteq> None \<and>
   sony_timestamp_of sample_env ''DSC00123.ARW'' (camera_bag ''input/DSC00123.ARW'') = Inr (Some sample_naive)"
proof -
  have 1: "extract_timestamp_from_filename dji_name = Some dji_timestamp"
    by (rule dji_name_timestamp)
  have 2: "extract_timestamp_from_metadata sample_env
             [(''CreateDate'', Scalar (TStr ''2023-06-15 14:30:22+02:00''))] ''local''
           = Inr (Some (sample_aware\<lparr>hour := 12, tzinfo := Some tzlocal\<rparr>))"
    by (simp add: generic_eval sample_eval group_def grp_get_def md_get_def)
  have 3: "resolve_timestamp sample_env ''DSC00123.ARW'' (camera_bag ''input/DSC00123.ARW'') ''local'' = Inr (Some sample_naive)
           \<and> tzinfo sample_naive = None"
    using arw_resolves_naive by (simp add: sample_naive_def)
  from naive_only_from_sony_chain [of dji_name dji_timestamp sample_env "camera_bag ''input/DSC00123.ARW''" "''local''"] 1
  have "tzinfo dji_timestamp \<noteq> None" by simp
  moreover
  from naive_only_from_sony_chain [of dji_name "sample_aware\<lparr>hour := 12, tzinfo := Some tzlocal\<rparr>"
      sample_env "[(''CreateDate'', Scalar (TStr ''2023-06-15 14:30:22+02:00''))]" "''local''"] 2
  have "tzinfo (sample_aware\<lparr>hour := 12, tzinfo := Some tzlocal\<rparr>) \<noteq> None" by blast
  moreover
  from naive_only_from_sony_chain [of "''DSC00123.ARW''" sample_naive sample_env "camera_bag ''input/DSC00123.ARW''" "''local''"] 3
  have "sony_timestamp_of sample_env ''DSC00123.ARW'' (camera_bag ''input/DSC00123.ARW'') = Inr (Some sample_naive)" by blast
  ultimately show ?thesis by simp
qed

lemmas synth_eval = generate_new_filename_def build_components_def filename_pattern_def
  FILENAME_PATTERNS_def default_pattern_def fill_def put_if_def clean_make_def clean_model_def
  extract_make_def extract_model_def extract_sequence_number_def extract_focal_length_def
  md_str_def get_normalized_extension_def EXTENSION_MAPPING_def py_strip_def is_space_def

lemmas path_eval = get_formatted_timestamp_def fmt_year_def fmt2_def zfill_def
  digits_of_nat.simps digit_char_def path_join_def path_name_def media_dir_def
  output_directory_def dirs_of_def

lemmas process_eval = process_def create_output_directory_def is_file_already_processed_def
  initialize_processed_files_db_def mark_file_as_processed_def

text \<open>
  Claim C5 as stated fails: for \<open>DSC00123.ARW\<close> whose \<open>IFD0:ModifyDate\<close> has no offset the
  resolved timestamp is naive, and \<open>process\<close> formats it into the output path.
\<close>

theorem sony_naive_timestamp_counterexample:
  "resolve_timestamp sample_env ''DSC00123.ARW'' (camera_bag ''input/DSC00123.ARW'') ''local''
     = Inr (Some sample_naive) \<and>
   tzinfo sample_naive = None \<and>
   fst (process sample_env ''input/DSC00123.ARW'' ''output'' ''local''
          \<lparr>existing = {''input/DSC00123.ARW''}, processed_files = Table []\<rparr>)
     = Inr (Some ''output/photos/2024/2024-01/2024-01-01/20240101-100000-Sony-ILCE7M4.arw'')"
  by (simp add: process_eval path_eval synth_eval classify_eval sony_eval name_eval sample_eval
      Let_def)


text \<open>
  Claim C6 at a failing input. The bag has a QuickTime group with a \<open>CreateDate\<close>; the loop
  over the QuickTime fields overwrites \<open>timezone_str\<close>, so the later test
  \<open>timezone_str == 'local'\<close> fails and the instant parsed from \<open>System:FileModifyDate\<close> keeps
  its offset of two hours. The same bag without the QuickTime group is converted to the
  local zone.
\<close>

theorem quicktime_group_blocks_local_conversion:
  "extract_timestamp_from_metadata sample_env quicktime_bag ''local'' = Inr (Some sample_aware) \<and>
   tzinfo sample_aware = Some (tzoffset 7200) \<and>
   extract_timestamp_from_metadata sample_env system_bag ''local''
     = Inr (Some (sample_aware\<lparr>hour := 12, tzinfo := Some tzlocal\<rparr>))"
  by (simp add: generic_eval sample_eval group_def grp_get_def md_get_def)

section \<open>Filename synthesis\<close>

text \<open>
  Claim C9 at a failing input. A Sony clip whose bag has no resolution, frame-rate or
  duration field leaves a run of four dashes behind the time; one pass of
  \<open>replace('--', '-')\<close> turns it into two, and the filename keeps a double dash.
\<close>

theorem video_without_components_keeps_double_dash:
  "generate_new_filename sample_env ''C0001.MP4'' (sample_metadata ''input/C0001.MP4'')
       (Some sony_camera) (Some video_media) ''20230615'' ''143022''
     = Some ''20230615-143022--Sony-ILCE7M4.mp4'' \<and>
   py_in ''--'' ''20230615-143022--Sony-ILCE7M4.mp4''"
  by (simp add: synth_eval name_eval sample_eval md_get_def Let_def)

section \<open>The DJI scenario\<close>

lemmas batch_eval = process_files_def process_one_def remove_source_def dry_run_report_def

lemma dji_name_device: "identify_device_type dji_name md = Some dji_drone"
  by (simp add: dji_name_def classify_eval name_eval)

lemma dji_name_media: "identify_media_type dji_name = Some image_media"
  by (simp add: dji_name_def classify_eval name_eval)

lemma dji_name_sequence: "extract_sequence_number (Some dji_drone) dji_name = Some ''0007''"
  by (simp add: dji_name_def extract_sequence_number_def)

lemma dji_name_not_sony: "\<not> is_sony_arw dji_name \<and> \<not> is_sony_mp4 dji_name"
  by (simp add: dji_name_def is_sony_arw_def is_sony_mp4_def name_eval)

lemma dji_name_suffix: "path_suffix dji_name = ''.jpg''"
  by (simp add: dji_name_def name_eval)

lemma dji_filename:
  assumes "extract_focal_length e (Some dji_drone) (Some image_media) dji_name md = None"
  shows "generate_new_filename e dji_name md (Some dji_drone) (Some image_media)
           ''20230615'' ''143022''
         = Some ''20230615-143022-0007-DJI-Mavic3Pro-.jpg''"
  by (simp add: generate_new_filename_def build_components_def assms dji_name_sequence
      dji_name_suffix filename_pattern_def FILENAME_PATTERNS_def fill_def put_if_def
      get_normalized_extension_def EXTENSION_MAPPING_def py_lower_def lower_eval
      py_startswith_def Let_def)

lemma dji_path_name: "path_name dji_path = dji_name"
  by (simp add: dji_path_def dji_name_def path_name_def)

lemma dji_formatted: "get_formatted_timestamp e dji_timestamp = (''20230615'', ''143022'')"
  by (simp add: dji_timestamp_def path_eval)

lemma dji_output_directory:
  "output_directory e ''output'' dji_timestamp (Some image_media)
     = ''output/photos/2023/2023-06/2023-06-15''"
  by (simp add: dji_timestamp_def path_eval)

lemma dji_output_not_a_directory:
  "dji_output_path \<notin> set (dirs_of ''output/photos/2023/2023-06/2023-06-15'')"
  by (simp add: dji_output_path_def dirs_of_def)

lemma dji_resolve:
  assumes "extract_timestamp_from_metadata e md timezone = Inr m"
  shows "resolve_timestamp e dji_name md timezone = Inr (Some dji_timestamp)"
  using assms dji_name_not_sony
  by (simp add: resolve_timestamp_def sony_timestamp_of_def dji_name_timestamp)

lemma untracked_check:
  assumes "output_path \<notin> existing st" and "\<not> tracked st source_path"
  shows "fst (is_file_already_processed source_path output_path st) = False \<and>
         existing (snd (is_file_already_processed source_path output_path st)) = existing st"
  using assms
  by (auto simp: is_file_already_processed_def tracked_def initialize_processed_files_db_def
      split: store.splits)

lemma dji_process_copies:
  assumes bag: "extract_metadata e dji_path = md" "md \<noteq> []"
    and scan: "extract_timestamp_from_metadata e md timezone = Inr m"
    and lens: "extract_focal_length e (Some dji_drone) (Some image_media) dji_name md = None"
    and files: "dji_path \<in> existing st" "dji_output_path \<notin> existing st"
               "\<not> tracked st dji_path"
    and os: "can_mkdir e ''output/photos/2023/2023-06/2023-06-15''"
            "can_copy e dji_path dji_output_path"
  shows "fst (process e dji_path ''output'' timezone st) = Inr (Some dji_output_path)"
proof -
  have name: "generate_new_filename e dji_name md (Some dji_drone) (Some image_media)
                ''20230615'' ''143022'' = Some ''20230615-143022-0007-DJI-Mavic3Pro-.jpg''"
    using lens by (rule dji_filename)
  have ts: "resolve_timestamp e dji_name md timezone = Inr (Some dji_timestamp)"
    using scan by (rule dji_resolve)
  let ?dir = "''output/photos/2023/2023-06/2023-06-15''"
  let ?st1 = "st\<lparr>existing := existing st \<union> set (dirs_of ?dir)\<rparr>"
  have dir: "create_output_directory e ''output'' dji_timestamp (Some image_media) st
               = Inr (?dir, ?st1)"
    using os(1) by (simp add: create_output_directory_def dji_output_directory Let_def)
  have path: "path_join ?dir ''20230615-143022-0007-DJI-Mavic3Pro-.jpg'' = dji_output_path"
    by (simp add: path_join_def dji_output_path_def)
  have "dji_output_path \<notin> existing ?st1"
    using files(2) dji_output_not_a_directory by simp
  moreover have "\<not> tracked ?st1 dji_path"
    using files(3) by (simp add: tracked_def)
  ultimately have check: "fst (is_file_already_processed dji_path dji_output_path ?st1) = False"
    using untracked_check by blast
  show ?thesis
    using bag files(1) os(2) check
    by (simp add: process_def dji_path_name dji_name_device dji_name_media ts dir
        dji_formatted name path Let_def)
qed

text \<open>The example inputs: the bag of \<open>dji_path\<close> has the \<open>SourceFile\<close> tag only.\<close>

lemma sample_dji_bag:
  "extract_metadata sample_env dji_path = [(''SourceFile'', Scalar (TStr dji_path))]"
  by (simp add: sample_env_def sample_metadata_def dji_path_def py_startswith_def)

lemma sample_dji_scan:
  "extract_timestamp_from_metadata sample_env [(''SourceFile'', Scalar (TStr dji_path))] ''local''
     = Inr None"
  by (simp add: generic_eval sample_env_def sample_parse_def group_def grp_get_def md_get_def
      dji_path_def Let_def)

lemma sample_dji_lens:
  "extract_focal_length sample_env (Some dji_drone) (Some image_media) dji_name
     [(''SourceFile'', Scalar (TStr dji_path))] = None"
  by (simp add: extract_focal_length_def md_str_def md_get_def dji_name_def dji_path_def
      py_lower_def lower_eval py_startswith_def py_str_def Let_def)

lemma sample_os:
  "can_mkdir sample_env p" "can_copy sample_env p q"
  by (simp_all add: sample_env_def)

text \<open>
  Claim C7, as amended. For \<open>DJI_20230615143022_0007_D.jpg\<close> with a bag that is not empty,
  that allows the generic metadata resolution to return and in which no lens code matches:
  the device is \<open>dji_drone\<close>, the media kind is image, the resolved timestamp is
  2023-06-15 14:30:22 in the local zone, the sequence is \<open>0007\<close>, the filename is
  \<open>20230615-143022-0007-DJI-Mavic3Pro-.jpg\<close>, and \<open>process\<close> copies the file there when it
  exists, is not processed yet and the operating system permits it.
\<close>

theorem dji_scenario:
  assumes bag: "extract_metadata e dji_path = md" "md \<noteq> []"
    and scan: "extract_timestamp_from_metadata e md timezone = Inr m"
    and lens: "extract_focal_length e (Some dji_drone) (Some image_media) dji_name md = None"
    and files: "dji_path \<in> existing st" "dji_output_path \<notin> existing st"
               "\<not> tracked st dji_path"
    and os: "can_mkdir e ''output/photos/2023/2023-06/2023-06-15''"
            "can_copy e dji_path dji_output_path"
  shows "identify_device_type dji_name md = Some dji_drone \<and>
         identify_media_type dji_name = Some image_media \<and>
         resolve_timestamp e dji_name md timezone = Inr (Some dji_timestamp) \<and>
         extract_sequence_number (Some dji_drone) dji_name = Some ''0007'' \<and>
         generate_new_filename e dji_name md (Some dji_drone) (Some image_media)
           ''20230615'' ''143022'' = Some ''20230615-143022-0007-DJI-Mavic3Pro-.jpg'' \<and>
         fst (process e dji_path ''output'' timezone st) = Inr (Some dji_output_path)"
  using dji_process_copies [OF assms] dji_filename [OF lens] dji_resolve [OF scan]
  by (simp add: dji_name_device dji_name_media dji_name_sequence)

theorem dji_scenario_witness:
  "identify_device_type dji_name [(''SourceFile'', Scalar (TStr dji_path))] = Some dji_drone \<and>
   identify_media_type dji_name = Some image_media \<and>
   resolve_timestamp sample_env dji_name [(''SourceFile'', Scalar (TStr dji_path))] ''local''
     = Inr (Some dji_timestamp) \<and>
   extract_sequence_number (Some dji_drone) dji_name = Some ''0007'' \<and>
   generate_new_filename sample_env dji_name [(''SourceFile'', Scalar (TStr dji_path))]
     (Some dji_drone) (Some image_media) ''20230615'' ''143022''
     = Some ''20230615-143022-0007-DJI-Mavic3Pro-.jpg'' \<and>
   fst (process sample_env dji_path ''output'' ''local'' fresh_state) = Inr (Some dji_output_path)"
proof -
  have files: "dji_path \<in> existing fresh_state" "dji_output_path \<notin> existing fresh_state"
              "\<not> tracked fresh_state dji_path"
    by (simp_all add: fresh_state_def tracked_def dji_path_def dji_output_path_def)
  have full: "[(''SourceFile'', Scalar (TStr dji_path))] \<noteq> []" by simp
  from dji_scenario [OF sample_dji_bag full sample_dji_scan sample_dji_lens files sample_os]
  show ?thesis .
qed

text \<open>
  Claim C7 as stated fails where the metadata bag is empty, as it is when the extraction
  fails: \<open>process\<close> returns \<open>None\<close> before it classifies the file, and the batch counts an
  error.
\<close>

theorem empty_bag_fails_counterexample:
  "path_name ''input/broken/DJI_20230615143022_0007_D.jpg'' = ''DJI_20230615143022_0007_D.jpg'' \<and>
   extract_metadata sample_env ''input/broken/DJI_20230615143022_0007_D.jpg'' = [] \<and>
   fst (process sample_env ''input/broken/DJI_20230615143022_0007_D.jpg'' ''output'' ''local''
          \<lparr>existing = {''input/broken/DJI_20230615143022_0007_D.jpg''}, processed_files = Table []\<rparr>)
     = Inr None \<and>
   fst (snd (process_files sample_env [''input/broken/DJI_20230615143022_0007_D.jpg''] ''output''
          ''local'' False False
          \<lparr>existing = {''input/broken/DJI_20230615143022_0007_D.jpg''}, processed_files = Table []\<rparr>))
     = 1"
  by (simp add: process_eval batch_eval path_eval sample_eval Let_def)

section \<open>The batch\<close>

lemma process_one_shift:
  "process_one e out tz dry rp (a, b, s) f =
     (a + fst (process_one e out tz dry rp (0, 0, s) f),
      b + fst (snd (process_one e out tz dry rp (0, 0, s) f)),
      snd (snd (process_one e out tz dry rp (0, 0, s) f)))"
  by (simp add: process_one_def Let_def split: sum.splits option.splits prod.splits)

lemma foldl_counts:
  "foldl (process_one e out tz dry rp) (a, b, s) fs =
     (a + fst (foldl (process_one e out tz dry rp) (0, 0, s) fs),
      b + fst (snd (foldl (process_one e out tz dry rp) (0, 0, s) fs)),
      snd (snd (foldl (process_one e out tz dry rp) (0, 0, s) fs)))"
proof (induction fs arbitrary: a b s)
  case Nil
  show ?case by simp
next
  case (Cons f fs)
  obtain a' b' s' where step: "process_one e out tz dry rp (0, 0, s) f = (a', b', s')"
    by (cases "process_one e out tz dry rp (0, 0, s) f") auto
  have shifted: "process_one e out tz dry rp (a, b, s) f = (a + a', b + b', s')"
    using process_one_shift [of e out tz dry rp a b s f] step by simp
  have left: "foldl (process_one e out tz dry rp) (a, b, s) (f # fs)
                = foldl (process_one e out tz dry rp) (a + a', b + b', s') fs"
    by (simp add: shifted)
  have right: "foldl (process_one e out tz dry rp) (0, 0, s) (f # fs)
                 = foldl (process_one e out tz dry rp) (a', b', s') fs"
    by (simp add: step)
  show ?case
    unfolding left right
    by (simp add: Cons.IH [of "a + a'" "b + b'" s'] Cons.IH [of a' b' s'])
qed

lemma initialize_idem:
  "initialize_processed_files_db (initialize_processed_files_db st) = initialize_processed_files_db st"
  by (simp add: initialize_processed_files_db_def split: store.splits)

lemma initialize_keeps_files:
  "existing (initialize_processed_files_db st) = existing st"
  by (simp add: initialize_processed_files_db_def split: store.splits)

lemma tracked_initialize:
  "tracked st f \<Longrightarrow> tracked (initialize_processed_files_db st) f"
  by (auto simp: tracked_def initialize_processed_files_db_def split: store.splits)

lemma already_processed_initialize:
  "already_processed e out tz st f \<Longrightarrow> already_processed e out tz (initialize_processed_files_db st) f"
  unfolding already_processed_def Let_def initialize_keeps_files
  by (auto split: option.splits sum.splits dest: tracked_initialize)

lemma check_holds:
  assumes "output_path \<in> existing st \<or> tracked st source_path"
  shows "is_file_already_processed source_path output_path st = (True, st)"
  using assms
  by (auto simp: is_file_already_processed_def tracked_def split: store.splits)

lemma process_skips:
  assumes "already_processed e out tz st f"
  shows "process e f out tz st = (Inr None, st\<lparr>existing := existing st \<union> skip_dirs e out tz f\<rparr>)"
proof -
  let ?name = "path_name f" and ?md = "extract_metadata e f"
  from assms obtain d m t n where
    pre: "f \<in> existing st" "?md \<noteq> []"
    and dev: "identify_device_type ?name ?md = Some d"
    and med: "identify_media_type ?name = Some m"
    and ts: "resolve_timestamp e ?name ?md tz = Inr (Some t)"
    and mk: "can_mkdir e (output_directory e out t (Some m))"
    and fn: "generate_new_filename e ?name ?md (Some d) (Some m)
               (fst (get_formatted_timestamp e t)) (snd (get_formatted_timestamp e t)) = Some n"
            "n \<noteq> []"
    and hit: "path_join (output_directory e out t (Some m)) n \<in> existing st \<or> tracked st f"
    unfolding already_processed_def Let_def
    by (auto split: option.splits sum.splits)
  let ?st1 = "st\<lparr>existing := existing st \<union> set (dirs_of (output_directory e out t (Some m)))\<rparr>"
  have dirs: "skip_dirs e out tz f = set (dirs_of (output_directory e out t (Some m)))"
    by (simp add: skip_dirs_def med ts Let_def)
  have "path_join (output_directory e out t (Some m)) n \<in> existing ?st1 \<or> tracked ?st1 f"
    using hit by (auto simp: tracked_def)
  then have check: "is_file_already_processed f (path_join (output_directory e out t (Some m)) n) ?st1
                      = (True, ?st1)"
    by (rule check_holds)
  show ?thesis
    using pre mk
    by (simp add: process_def dev med ts fn create_output_directory_def check dirs Let_def)
qed

lemma sample_already_processed:
  assumes "dji_path \<in> existing st"
    and "dji_output_path \<in> existing st \<or> tracked st dji_path"
  shows "already_processed sample_env ''output'' ''local'' st dji_path"
  using assms
  by (simp add: already_processed_def dji_path_name sample_dji_bag dji_name_device
      dji_name_media dji_resolve [OF sample_dji_scan] dji_formatted dji_output_directory
      dji_filename [OF sample_dji_lens] sample_os path_join_def dji_output_path_def Let_def)

lemma sample_batch_of_one:
  assumes "already_processed sample_env ''output'' ''local'' st dji_path"
  shows "fst (snd (process_files sample_env [dji_path] ''output'' ''local'' False False st)) = 1"
proof -
  have "process sample_env dji_path ''output'' ''local'' (initialize_processed_files_db st)
          = (Inr None, (initialize_processed_files_db st)
               \<lparr>existing := existing (initialize_processed_files_db st) \<union>
                              skip_dirs sample_env ''output'' ''local'' dji_path\<rparr>)"
    using assms by (intro process_skips already_processed_initialize)
  then show ?thesis
    by (simp add: process_files_def process_one_def)
qed

text \<open>
  Claim C1, as amended. A file that is already processed (its output path exists or its
  source path has a row in the tracking store) makes \<open>process\<close> return \<open>None\<close>, and the
  batch counts it as one error: the counts for a list that starts with such a file are
  those of the rest of the list, with the error count one higher. The rest is processed
  from a state in which nothing was copied, recorded or removed; only the store was
  initialised and the output directories were made.
\<close>

theorem already_processed_is_counted_as_error:
  assumes "already_processed e output_dir timezone st f"
  shows "fst (process e f output_dir timezone (initialize_processed_files_db st)) = Inr None \<and>
         process_files e (f # rest) output_dir timezone False remove_processed st =
           (let st' = (initialize_processed_files_db st)
                        \<lparr>existing := existing st \<union> skip_dirs e output_dir timezone f\<rparr>;
                r = process_files e rest output_dir timezone False remove_processed st'
            in (fst r, Suc (fst (snd r)), snd (snd r)))"
proof -
  let ?st0 = "initialize_processed_files_db st"
  let ?st' = "?st0\<lparr>existing := existing st \<union> skip_dirs e output_dir timezone f\<rparr>"
  let ?step = "process_one e output_dir timezone False remove_processed"
  have skip: "process e f output_dir timezone ?st0 = (Inr None, ?st')"
    using process_skips [OF already_processed_initialize [OF assms]]
    by (simp add: initialize_keeps_files)
  have init: "initialize_processed_files_db ?st' = ?st'"
    by (simp add: initialize_processed_files_db_def split: store.splits)
  have one: "?step (0, 0, ?st0) f = (0, 1, ?st')"
    by (simp add: process_one_def skip)
  have "process_files e (f # rest) output_dir timezone False remove_processed st
          = foldl ?step (0, 1, ?st') rest"
    by (simp add: process_files_def one)
  also have "\<dots> = (fst (foldl ?step (0, 0, ?st') rest),
                    Suc (fst (snd (foldl ?step (0, 0, ?st') rest))),
                    snd (snd (foldl ?step (0, 0, ?st') rest)))"
    by (subst foldl_counts) simp
  also have "foldl ?step (0, 0, ?st') rest
               = process_files e rest output_dir timezone False remove_processed ?st'"
    by (simp add: process_files_def init)
  finally show ?thesis
    using skip by (simp add: Let_def)
qed

theorem already_processed_is_counted_as_error_witness:
  "fst (process sample_env dji_path ''output'' ''local'' tracked_state) = Inr None \<and>
   fst (process_files sample_env [dji_path] ''output'' ''local'' False False tracked_state) = 0 \<and>
   fst (snd (process_files sample_env [dji_path] ''output'' ''local'' False False tracked_state)) = 1"
proof -
  have "dji_path \<in> existing tracked_state" "tracked tracked_state dji_path"
    by (simp_all add: tracked_def tracked_state_def)
  then have ap: "already_processed sample_env ''output'' ''local'' tracked_state dji_path"
    by (intro sample_already_processed) simp_all
  have init: "initialize_processed_files_db tracked_state = tracked_state"
    by (simp add: initialize_processed_files_db_def tracked_state_def)
  from already_processed_is_counted_as_error [OF ap, of "[]" False]
  show ?thesis
    by (simp add: init process_files_def Let_def)
qed

text \<open>
  Claim C1 as stated fails: with a row for the file in the tracking store, and also with
  its output file in place, the batch returns the error count 1 for the list holding the
  file and 0 for the empty list.
\<close>

theorem tracked_file_counted_as_error_counterexample:
  "tracked tracked_state dji_path \<and>
   fst (snd (process_files sample_env [dji_path] ''output'' ''local'' False False tracked_state)) = 1 \<and>
   fst (snd (process_files sample_env [] ''output'' ''local'' False False tracked_state)) = 0 \<and>
   dji_output_path \<in> existing copied_state \<and>
   fst (snd (process_files sample_env [dji_path] ''output'' ''local'' False False copied_state)) = 1 \<and>
   fst (snd (process_files sample_env [] ''output'' ''local'' False False copied_state)) = 0"
proof -
  have t: "dji_path \<in> existing tracked_state" "tracked tracked_state dji_path"
    by (simp_all add: tracked_def tracked_state_def)
  have c: "dji_path \<in> existing copied_state" "dji_output_path \<in> existing copied_state"
    by (simp_all add: copied_state_def)
  have "fst (snd (process_files sample_env [dji_path] ''output'' ''local'' False False
                    tracked_state)) = 1"
    using t by (intro sample_batch_of_one sample_already_processed) simp_all
  moreover
  have "fst (snd (process_files sample_env [dji_path] ''output'' ''local'' False False
                    copied_state)) = 1"
    using c by (intro sample_batch_of_one sample_already_processed) simp_all
  ultimately show ?thesis
    using t c by (simp add: process_files_def)
qed

text \<open>
  Claim C2 at a failing input. For \<open>DJI_20230615143022_0007_D.jpg\<close> the real run copies to
  \<open>photos/2023/2023-06/2023-06-15\<close>, while the dry run reports a path under
  \<open>photos/2023/06\<close>.
\<close>

theorem dry_run_reports_other_path:
  "fst (process sample_env dji_path ''output'' ''local'' fresh_state)
     = Inr (Some ''output/photos/2023/2023-06/2023-06-15/20230615-143022-0007-DJI-Mavic3Pro-.jpg'') \<and>
   dry_run_report sample_env dji_path ''output'' ''local''
     = Inr (Some ''output/photos/2023/06/20230615-143022-0007-DJI-Mavic3Pro-.jpg'')"
proof -
  have files: "dji_path \<in> existing fresh_state" "dji_output_path \<notin> existing fresh_state"
              "\<not> tracked fresh_state dji_path"
    by (simp_all add: fresh_state_def tracked_def dji_path_def dji_output_path_def)
  have full: "[(''SourceFile'', Scalar (TStr dji_path))] \<noteq> []" by simp
  have real: "fst (process sample_env dji_path ''output'' ''local'' fresh_state)
                = Inr (Some dji_output_path)"
    by (rule dji_process_copies
          [OF sample_dji_bag full sample_dji_scan sample_dji_lens files sample_os])
  have dir: "media_dir ''output'' (Some image_media) = ''output/photos''"
            "fmt_year sample_env dji_timestamp = ''2023''" "fmt2 (month dji_timestamp) = ''06''"
    by (simp_all add: dji_timestamp_def path_eval)
  have dry: "dry_run_report sample_env dji_path ''output'' ''local''
               = Inr (Some ''output/photos/2023/06/20230615-143022-0007-DJI-Mavic3Pro-.jpg'')"
    by (simp add: dry_run_report_def dji_path_name sample_dji_bag dji_name_device
        dji_name_media dji_name_timestamp sample_dji_scan dji_formatted dir
        dji_filename [OF sample_dji_lens] path_join_def Let_def)
  from real dry show ?thesis by (simp add: dji_output_path_def)
qed

end
